theory Spec2Isabelle
  imports Complex_Main "HOL-Library.Log_Nat"
begin

section \<open>JavaScript containers used by the engine\<close>

text \<open>
  A JavaScript \<^verbatim>\<open>Set\<close> keeps its elements in insertion order and holds each at most
  once. It is modelled as the list of its elements in insertion order; \<open>set_add\<close>
  leaves the list alone when the element is present, so a set built from \<open>set_clear\<close>
  by \<open>set_add\<close> is a distinct list and its \<^verbatim>\<open>size\<close> is the length of the list.
\<close>

type_synonym 'a jsset = "'a list"

definition set_clear :: "'a jsset" where
  "set_clear = []"

definition set_has :: "'a jsset \<Rightarrow> 'a \<Rightarrow> bool" where
  "set_has S x = (x \<in> set S)"

definition set_add :: "'a \<Rightarrow> 'a jsset \<Rightarrow> 'a jsset" where
  "set_add x S = (if set_has S x then S else S @ [x])"

definition set_size :: "'a jsset \<Rightarrow> nat" where
  "set_size S = length S"

text \<open>\<^verbatim>\<open>Array.prototype.indexOf\<close>: the first position of the element, or -1.\<close>

fun indexOf :: "'a list \<Rightarrow> 'a \<Rightarrow> int" where
  "indexOf [] x = -1"
| "indexOf (y # ys) x =
     (if y = x then 0 else (let i = indexOf ys x in if i < 0 then -1 else i + 1))"

section \<open>RenderAction: the directional lights of a render action\<close>

text \<open>
  A light is an object: its identity is \<open>light_id\<close>, and \<open>castShadows\<close> is the only
  property \<^verbatim>\<open>collectDirectionalLights\<close> reads. A layer is read only through
  \<^verbatim>\<open>_splitLights[LIGHTTYPE_DIRECTIONAL]\<close>.
\<close>

record light =
  light_id :: nat
  castShadows :: bool

record layer =
  splitLights_directional :: "light list"

record renderAction =
  directionalLightsSet :: "light jsset"
  directionalLights :: "light list"
  directionalLightsIndices :: "int list"

text \<open>The body of the inner loop, for one light and one layer of the camera.\<close>

definition collect_one :: "light \<Rightarrow> layer \<Rightarrow> light list \<Rightarrow> renderAction \<Rightarrow> renderAction" where
  "collect_one li cl allLights ra =
     (if indexOf (splitLights_directional cl) li \<ge> 0 then
        (if \<not> set_has (directionalLightsSet ra) li then
           ra\<lparr> directionalLightsSet := set_add li (directionalLightsSet ra),
               directionalLights := directionalLights ra @ [li],
               directionalLightsIndices := directionalLightsIndices ra @ [indexOf allLights li] \<rparr>
         else ra)
      else ra)"

text \<open>The inner loop \<^verbatim>\<open>for (let l = 0; l < cameraLayers.length; l++)\<close>.\<close>

fun collect_layers :: "light \<Rightarrow> layer list \<Rightarrow> light list \<Rightarrow> renderAction \<Rightarrow> renderAction" where
  "collect_layers li [] allLights ra = ra"
| "collect_layers li (cl # cls) allLights ra =
     collect_layers li cls allLights (collect_one li cl allLights ra)"

text \<open>The outer loop \<^verbatim>\<open>for (let i = 0; i < dirLights.length; i++)\<close>.\<close>

fun collect_lights :: "light list \<Rightarrow> layer list \<Rightarrow> light list \<Rightarrow> renderAction \<Rightarrow> renderAction" where
  "collect_lights [] cameraLayers allLights ra = ra"
| "collect_lights (li # lis) cameraLayers allLights ra =
     collect_lights lis cameraLayers allLights
       (if castShadows li then collect_layers li cameraLayers allLights ra else ra)"

definition collectDirectionalLights ::
  "layer list \<Rightarrow> light list \<Rightarrow> light list \<Rightarrow> renderAction \<Rightarrow> renderAction" where
  "collectDirectionalLights cameraLayers dirLights allLights ra =
     collect_lights dirLights cameraLayers allLights
       (ra\<lparr> directionalLightsSet := set_clear,
            directionalLights := [],
            directionalLightsIndices := [] \<rparr>)"

section \<open>JavaScript values of material properties and parameters\<close>

text \<open>
  A finite number is a real, \<open>JNaN\<close> is NaN. Arithmetic on doubles is taken as exact
  and the infinities are outside the model; a store into a \<^verbatim>\<open>Float32Array\<close> rounds to
  single precision (\<open>fround\<close> below).
  Objects carry an identity, so that \<^verbatim>\<open>===\<close> on them is equality of the values below.
  A texture is read only through \<^verbatim>\<open>type\<close>, \<^verbatim>\<open>format\<close> and \<^verbatim>\<open>fixCubemapSeams\<close>, and
  a bounding box through what \<^verbatim>\<open>getMin()\<close> and \<^verbatim>\<open>getMax()\<close> return.
\<close>

record texture =
  tex_id :: nat
  tex_type :: string
  tex_format :: nat
  tex_fixCubemapSeams :: bool

record vec3 =
  v3x :: real
  v3y :: real
  v3z :: real

record boundingBox =
  box_id :: nat
  box_min :: vec3
  box_max :: vec3

datatype jsval =
    JUndefined
  | JNull
  | JBool bool
  | JNum real
  | JNaN
  | JStr string
  | JTex texture
  | JBox boundingBox
  | JObj nat
  | JArray string
  | JEntries string
  | JEntry string nat

text \<open>
  \<open>JObj\<close> is any other object, by identity. The last three are the objects of the
  material's uniform cache: \<open>JArray k\<close> is the \<^verbatim>\<open>Float32Array\<close> cached under \<open>k\<close>,
  \<open>JEntries k\<close> the array of entries cached under \<open>k\<close>, and \<open>JEntry k i\<close> the
  \<^verbatim>\<open>Float32Array\<close> of its \<open>i\<close>-th entry. A slot of the cache is filled once and never
  emptied by the functions modelled here (\<^verbatim>\<open>reset()\<close>, which replaces the cache, is
  not among them), so the slot names the object.
\<close>

text \<open>\<^verbatim>\<open>a === b\<close>: NaN is different from itself.\<close>

definition strict_eq :: "jsval \<Rightarrow> jsval \<Rightarrow> bool" where
  "strict_eq a b = (a \<noteq> JNaN \<and> a = b)"

text \<open>\<^verbatim>\<open>!!a\<close>, the truth value JavaScript reads in a condition.\<close>

fun truthy :: "jsval \<Rightarrow> bool" where
  "truthy JUndefined = False"
| "truthy JNull = False"
| "truthy (JBool b) = b"
| "truthy (JNum x) = (x \<noteq> 0)"
| "truthy JNaN = False"
| "truthy (JStr s) = (s \<noteq> [])"
| "truthy (JTex t) = True"
| "truthy (JBox b) = True"
| "truthy (JObj n) = True"
| "truthy (JArray k) = True"
| "truthy (JEntries k) = True"
| "truthy (JEntry k i) = True"

text \<open>
  The number an arithmetic operator or a comparison with a number reads from a value
  (\<^verbatim>\<open>ToNumber\<close>); \<open>None\<close> is NaN. \<^verbatim>\<open>null\<close> and \<^verbatim>\<open>false\<close> read as 0, \<^verbatim>\<open>true\<close> as 1
  and \<^verbatim>\<open>undefined\<close> as NaN. The properties read this way are documented as numbers:
  the conversion of a string is not modelled (it reads as NaN here), and the objects
  of the model have no numeric value.
\<close>

fun num_of :: "jsval \<Rightarrow> real option" where
  "num_of (JNum x) = Some x"
| "num_of JNull = Some 0"
| "num_of (JBool b) = Some (if b then 1 else 0)"
| "num_of v = None"

fun of_num :: "real option \<Rightarrow> jsval" where
  "of_num (Some x) = JNum x"
| "of_num None = JNaN"

definition num_op :: "(real \<Rightarrow> real \<Rightarrow> real) \<Rightarrow> real option \<Rightarrow> real option \<Rightarrow> real option" where
  "num_op f a b = (case (a, b) of (Some x, Some y) \<Rightarrow> Some (f x y) | _ \<Rightarrow> None)"

definition js_lt :: "real option \<Rightarrow> real option \<Rightarrow> bool" where
  "js_lt a b = (case (a, b) of (Some x, Some y) \<Rightarrow> x < y | _ \<Rightarrow> False)"

definition js_gt :: "real option \<Rightarrow> real option \<Rightarrow> bool" where
  "js_gt a b = js_lt b a"

text \<open>\<^verbatim>\<open>Math.pow(x, y)\<close> for the calls made here: the base 2, or a colour component
  with the exponent 2.2, where a negative base gives NaN.\<close>

definition math_pow :: "real option \<Rightarrow> real option \<Rightarrow> real option" where
  "math_pow a b =
     (case (a, b) of (Some x, Some y) \<Rightarrow> (if x < 0 then None else Some (x powr y)) | _ \<Rightarrow> None)"

text \<open>
  The value a store into a \<^verbatim>\<open>Float32Array\<close> leaves in the element (\<^verbatim>\<open>Math.fround\<close>):
  the nearest number with a significand of 24 bits, a tie going to the even significand;
  below \<open>2 powr (- 126)\<close> the spacing is that of the subnormal numbers. A number beyond
  the largest single-precision number, which the store turns into an infinity, is
  outside the model. NaN is stored as NaN.
\<close>

definition round_half_even :: "real \<Rightarrow> int" where
  "round_half_even x =
     (let f = \<lfloor>x\<rfloor>; d = x - of_int f
      in if d < 1 / 2 then f else if 1 / 2 < d then f + 1 else if even f then f else f + 1)"

definition fround :: "real \<Rightarrow> real" where
  "fround x =
     (if x = 0 then 0
      else (let e = max \<lfloor>log 2 \<bar>x\<bar>\<rfloor> (- 126);
                ulp = 2 powr (of_int e - 23)
            in of_int (round_half_even (x / ulp)) * ulp))"

definition float32 :: "real option \<Rightarrow> real option" where
  "float32 v = map_option fround v"

text \<open>\<^verbatim>\<open>math.DEG_TO_RAD\<close> (math.js is not among the sources): the factor its name states.\<close>

definition DEG_TO_RAD :: real where
  "DEG_TO_RAD = pi / 180"

text \<open>\<^verbatim>\<open>Color\<close> (r, g, b, a) and \<^verbatim>\<open>Vec2\<close> (x, y) of the math library.\<close>

record color =
  col_r :: real
  col_g :: real
  col_b :: real
  col_a :: real

record vec2 =
  v2x :: real
  v2y :: real

text \<open>
  The constants of \<^verbatim>\<open>scene/constants.js\<close> that the material compares against are not
  among the sources; the functions below take them as a parameter.
\<close>

record constants =
  CUBEPROJ_BOX :: jsval
  SPECULAR_PHONG :: jsval
  SHADER_DEPTH :: jsval
  SHADER_PICK :: jsval

section \<open>The material and the module state\<close>

text \<open>
  The objects \<^verbatim>\<open>_allocUniform\<close> caches are of two shapes: \<^verbatim>\<open>new Float32Array(3)\<close>
  under the name of a colour, and an array of two \<^verbatim>\<open>{ name, value: Float32Array(3) }\<close>
  entries under \<^verbatim>\<open><name>MapTransform\<close> and \<^verbatim>\<open>cubeMapProjectionBox\<close>. An element of a
  \<^verbatim>\<open>Float32Array\<close> is a number; \<open>None\<close> is NaN. The \<^verbatim>\<open>name\<close> of an entry is written
  once, by the function that allocates the array for its slot, and never changed: it is
  a function of the slot and the position, \<open>entry_name\<close>.
\<close>

type_synonym float32x3 = "real option \<times> real option \<times> real option"

type_synonym entries = "float32x3 \<times> float32x3"

definition entry_name :: "string \<Rightarrow> nat \<Rightarrow> string" where
  "entry_name slot i =
     (if slot = ''cubeMapProjectionBox'' then (if i = 0 then ''envBoxMin'' else ''envBoxMax'')
      else ''texture_'' @ slot @ (if i = 0 then ''0'' else ''1''))"

text \<open>
  What \<^verbatim>\<open>_setParameter\<close> adds to the module's parameter set is its first argument: a
  parameter name, or (for the projection box) the cached array of two entries itself.
\<close>

datatype pkey = PName string | PEntries string

text \<open>
  One \<^verbatim>\<open>StandardMaterial\<close>, the module variable \<^verbatim>\<open>_params\<close> and the \<^verbatim>\<open>Set\<close> objects.
  \<open>vals\<close>, \<open>colors\<close> and \<open>vec2s\<close> hold \<^verbatim>\<open>this._<name>\<close> for the value, colour and
  two-component properties (and a plain field of the object for a name that is not a
  defined property). \<open>activeParams\<close>, \<open>activeLightingParams\<close> and \<open>params\<close> are
  references to \<^verbatim>\<open>Set\<close> objects, whose contents \<open>sets\<close> holds: the code swaps the
  references. \<open>cacheArrays\<close> and \<open>cacheEntries\<close> are \<^verbatim>\<open>_uniformCache\<close>, kept by the
  shape of the cached object (the names of the two shapes are disjoint).
  \<open>dirtyShader\<close> is the truth value of \<^verbatim>\<open>_dirtyShader\<close>, which the code only
  ever tests in a condition.
\<close>

record state =
  vals :: "string \<Rightarrow> jsval"
  colors :: "string \<Rightarrow> color"
  vec2s :: "string \<Rightarrow> vec2"
  prefilteredCubemaps :: "nat \<Rightarrow> jsval"
  dirtyShader :: bool
  chunks :: jsval
  activeParams :: nat
  activeLightingParams :: nat
  parameters :: "string \<rightharpoonup> jsval"
  cacheArrays :: "string \<rightharpoonup> float32x3"
  cacheEntries :: "string \<rightharpoonup> entries"
  onUpdateShader :: "nat option"
  variants :: "jsval list"
  params :: nat
  sets :: "nat \<Rightarrow> pkey jsset"

section \<open>The property registry\<close>

text \<open>The names \<^verbatim>\<open>_defineMaterialProps\<close> registers, by the function that defines them.\<close>

definition color_props :: "string list" where
  "color_props = [''ambient'', ''diffuse'', ''specular'', ''emissive'', ''sheen'', ''attenuation'']"

definition float_props :: "string list" where
  "float_props =
     [''emissiveIntensity'', ''specularityFactor'', ''sheenGlossiness'', ''shininess'',
      ''heightMapFactor'', ''opacity'', ''alphaFade'', ''alphaTest'', ''bumpiness'',
      ''normalDetailMapBumpiness'', ''reflectivity'', ''occludeSpecularIntensity'',
      ''refraction'', ''refractionIndex'', ''thickness'', ''attenuationDistance'',
      ''metalness'', ''anisotropy'', ''clearCoat'', ''clearCoatGlossiness'',
      ''clearCoatBumpiness'', ''aoUvSet'', ''iridescence'', ''iridescenceRefractionIndex'',
      ''iridescenceThicknessMin'', ''iridescenceThicknessMax'']"

definition object_props :: "string list" where
  "object_props = [''ambientSH'', ''cubeMapProjectionBox'', ''cubeMap'', ''sphereMap'', ''envAtlas'']"

definition flag_props :: "string list" where
  "flag_props =
     [''ambientTint'', ''diffuseTint'', ''specularTint'', ''specularityFactorTint'',
      ''emissiveTint'', ''fastTbn'', ''useMetalness'', ''useMetalnessSpecularColor'',
      ''useSheen'', ''enableGGXSpecular'', ''occludeDirect'', ''normalizeNormalMap'',
      ''conserveEnergy'', ''opacityFadesSpecular'', ''occludeSpecular'', ''shadingModel'',
      ''fresnelModel'', ''useDynamicRefraction'', ''cubeMapProjection'',
      ''customFragmentShader'', ''forceFragmentPrecision'', ''useFog'', ''useLighting'',
      ''useGammaTonemap'', ''useSkybox'', ''forceUv1'', ''pixelSnap'', ''twoSidedLighting'',
      ''nineSlicedMode'', ''msdfTextAttribute'', ''useIridescence'']"

text \<open>
  The calls of \<^verbatim>\<open>_defineTex2D(name, uv, channels, defChannel, vertexColor, detailMode)\<close>,
  in their order: the keys of \<^verbatim>\<open>_matTex2D\<close> in the order \<^verbatim>\<open>for (const p in _matTex2D)\<close>
  visits them.
\<close>

definition tex2d_defs :: "(string \<times> int \<times> int \<times> string \<times> bool \<times> bool) list" where
  "tex2d_defs =
     [(''diffuse'', 0, 3, [], True, False),
      (''specular'', 0, 3, [], True, False),
      (''emissive'', 0, 3, [], True, False),
      (''thickness'', 0, 1, [], True, False),
      (''specularityFactor'', 0, 1, [], True, False),
      (''normal'', 0, -1, [], False, False),
      (''metalness'', 0, 1, [], True, False),
      (''gloss'', 0, 1, [], True, False),
      (''opacity'', 0, 1, ''a'', True, False),
      (''refraction'', 0, 1, [], True, False),
      (''height'', 0, 1, [], False, False),
      (''ao'', 0, 1, [], True, False),
      (''light'', 1, 3, [], True, False),
      (''msdf'', 0, 3, [], False, False),
      (''diffuseDetail'', 0, 3, [], False, True),
      (''normalDetail'', 0, -1, [], False, False),
      (''clearCoat'', 0, 1, [], True, False),
      (''clearCoatGloss'', 0, 1, [], True, False),
      (''clearCoatNormal'', 0, -1, [], False, False),
      (''sheen'', 0, 3, [], True, False),
      (''sheenGloss'', 0, 1, [], True, False),
      (''iridescence'', 0, 1, [], True, False),
      (''iridescenceThickness'', 0, 1, [], True, False)]"

definition matTex2D :: "string list" where
  "matTex2D = map fst tex2d_defs"

text \<open>The value properties one call of \<^verbatim>\<open>_defineTex2D\<close> defines (tiling and offset are
  aggregate properties).\<close>

definition tex2d_value_props :: "string \<times> int \<times> int \<times> string \<times> bool \<times> bool \<Rightarrow> string list" where
  "tex2d_value_props d =
     (case d of (name, uv, channels, defChannel, vertexColor, detailMode) \<Rightarrow>
        [name @ ''Map'', name @ ''MapRotation'', name @ ''MapUv'']
        @ (if channels > 0 then [name @ ''MapChannel''] else [])
        @ (if vertexColor then
             [name @ ''VertexColor'']
             @ (if channels > 0 then [name @ ''VertexColorChannel''] else [])
           else [])
        @ (if detailMode then [name @ ''Mode''] else []))"

definition map_props :: "string list" where
  "map_props = map (\<lambda>n. n @ ''Map'') matTex2D"

definition value_props :: "string list" where
  "value_props = float_props @ object_props @ flag_props @ concat (map tex2d_value_props tex2d_defs)"

definition vec2_props :: "string list" where
  "vec2_props = concat (map (\<lambda>n. [n @ ''MapTiling'', n @ ''MapOffset'']) matTex2D)"

subsection \<open>The dirty predicates\<close>

text \<open>A property of a value that is not an object holding it is \<^verbatim>\<open>undefined\<close>: \<open>None\<close>.\<close>

definition field_type :: "jsval \<Rightarrow> string option" where
  "field_type v = (case v of JTex t \<Rightarrow> Some (tex_type t) | _ \<Rightarrow> None)"

definition field_fixCubemapSeams :: "jsval \<Rightarrow> bool option" where
  "field_fixCubemapSeams v = (case v of JTex t \<Rightarrow> Some (tex_fixCubemapSeams t) | _ \<Rightarrow> None)"

definition field_format :: "jsval \<Rightarrow> nat option" where
  "field_format v = (case v of JTex t \<Rightarrow> Some (tex_format t) | _ \<Rightarrow> None)"

text \<open>The predicate of \<^verbatim>\<open>_defineTex2D\<close> for \<^verbatim>\<open><name>Map\<close>, read as a truth value.\<close>

definition dirty_tex2D :: "jsval \<Rightarrow> jsval \<Rightarrow> bool" where
  "dirty_tex2D oldValue newValue =
     (truthy oldValue \<noteq> truthy newValue \<or>
      (truthy oldValue \<and>
        (field_type oldValue \<noteq> field_type newValue \<or>
         field_fixCubemapSeams oldValue \<noteq> field_fixCubemapSeams newValue \<or>
         field_format oldValue \<noteq> field_format newValue)))"

text \<open>The predicate of \<^verbatim>\<open>_defineFloat\<close>.\<close>

definition dirty_float :: "jsval \<Rightarrow> jsval \<Rightarrow> bool" where
  "dirty_float oldValue newValue =
     ((strict_eq oldValue (JNum 0) \<or> strict_eq oldValue (JNum 1)) \<noteq>
      (strict_eq newValue (JNum 0) \<or> strict_eq newValue (JNum 1)))"

text \<open>The predicate of \<^verbatim>\<open>_defineObject\<close>.\<close>

definition dirty_object :: "jsval \<Rightarrow> jsval \<Rightarrow> bool" where
  "dirty_object oldValue newValue = (truthy oldValue = truthy newValue)"

text \<open>\<^verbatim>\<open>prop.dirtyShaderFunc || (() => true)\<close>, for the value property of a name.\<close>

definition dirtyShaderFunc_of :: "string \<Rightarrow> jsval \<Rightarrow> jsval \<Rightarrow> bool" where
  "dirtyShaderFunc_of name =
     (if name \<in> set map_props then dirty_tex2D
      else if name \<in> set float_props then dirty_float
      else if name \<in> set object_props then dirty_object
      else (\<lambda>oldValue newValue. True))"

subsection \<open>Setters and getters\<close>

text \<open>The setter \<^verbatim>\<open>defineValueProp\<close> builds.\<close>

definition defineValueProp_setter ::
  "(jsval \<Rightarrow> jsval \<Rightarrow> bool) \<Rightarrow> string \<Rightarrow> jsval \<Rightarrow> state \<Rightarrow> state" where
  "defineValueProp_setter dirtyShaderFunc name v s =
     (let oldValue = vals s name in
      if \<not> strict_eq oldValue v then
        s\<lparr> dirtyShader := dirtyShader s \<or> dirtyShaderFunc oldValue v,
           vals := (vals s)(name := v) \<rparr>
      else s)"

text \<open>The setters \<^verbatim>\<open>defineAggProp\<close> builds, for a colour and for a two-component vector:
  \<^verbatim>\<open>equals\<close> compares the components and \<^verbatim>\<open>copy\<close> copies them into the owned object.
  Every aggregate property has the default predicate.\<close>

definition defineAggProp_setter_color :: "string \<Rightarrow> color \<Rightarrow> state \<Rightarrow> state" where
  "defineAggProp_setter_color name v s =
     (let oldValue = colors s name in
      if \<not> (oldValue = v) then
        s\<lparr> dirtyShader := dirtyShader s \<or> True, colors := (colors s)(name := v) \<rparr>
      else s)"

definition defineAggProp_setter_vec2 :: "string \<Rightarrow> vec2 \<Rightarrow> state \<Rightarrow> state" where
  "defineAggProp_setter_vec2 name v s =
     (let oldValue = vec2s s name in
      if \<not> (oldValue = v) then
        s\<lparr> dirtyShader := dirtyShader s \<or> True, vec2s := (vec2s s)(name := v) \<rparr>
      else s)"

text \<open>The accessors of \<^verbatim>\<open>chunks\<close>.\<close>

definition set_chunks :: "jsval \<Rightarrow> state \<Rightarrow> state" where
  "set_chunks v s = s\<lparr> dirtyShader := True, chunks := v \<rparr>"

definition get_chunks :: "state \<Rightarrow> jsval \<times> state" where
  "get_chunks s = (chunks s, s\<lparr> dirtyShader := True \<rparr>)"

text \<open>\<^verbatim>\<open>material[name] = v\<close> for a value: through the setter of a defined property or of
  \<^verbatim>\<open>chunks\<close>, a plain field otherwise. (The setters of \<^verbatim>\<open>prefilteredCubemaps\<close>, which
  takes an array, and of \<^verbatim>\<open>shader\<close>, which only warns, are not reached through this
  function.)\<close>

definition assign :: "string \<Rightarrow> jsval \<Rightarrow> state \<Rightarrow> state" where
  "assign name v s =
     (if name \<in> set value_props then defineValueProp_setter (dirtyShaderFunc_of name) name v s
      else if name = ''chunks'' then set_chunks v s
      else s\<lparr> vals := (vals s)(name := v) \<rparr>)"

text \<open>The getter \<^verbatim>\<open>_defineColor\<close> passes as \<^verbatim>\<open>getterFunc\<close>: the colour, and the flag set.\<close>

definition color_getter :: "string \<Rightarrow> state \<Rightarrow> color \<times> state" where
  "color_getter name s = (colors s name, s\<lparr> dirtyShader := True \<rparr>)"

text \<open>The default getter of \<^verbatim>\<open>definePropInternal\<close>.\<close>

definition value_getter :: "string \<Rightarrow> state \<Rightarrow> jsval \<times> state" where
  "value_getter name s = (vals s name, s)"

text \<open>The state after reading \<^verbatim>\<open>material[name]\<close>: the getters of the colours and of
  \<^verbatim>\<open>chunks\<close> set the flag, the others change nothing.\<close>

definition read_prop :: "string \<Rightarrow> state \<Rightarrow> state" where
  "read_prop name s =
     (if name \<in> set color_props then snd (color_getter name s)
      else if name = ''chunks'' then snd (get_chunks s)
      else s)"

section \<open>Parameters and uniforms\<close>

text \<open>
  A JavaScript exception is a value: a function that can throw returns \<open>Inl\<close> with the
  error and the state the material and the module are left in, which JavaScript does not
  roll back.
\<close>

datatype js_error = TypeError

type_synonym 'a result = "(js_error \<times> state) + 'a"

text \<open>The state a call leaves behind, whether it returned or threw.\<close>

definition state_after :: "state result \<Rightarrow> state" where
  "state_after res = (case res of Inl (e, s) \<Rightarrow> s | Inr s \<Rightarrow> s)"

text \<open>
  As a property key of \<^verbatim>\<open>this.parameters\<close> a name is itself, and the array of two
  entries is what \<^verbatim>\<open>Array.prototype.toString\<close> makes of it.
\<close>

definition key_of :: "pkey \<Rightarrow> string" where
  "key_of k = (case k of PName n \<Rightarrow> n | PEntries slot \<Rightarrow> ''[object Object],[object Object]'')"

text \<open>
  Modelled from the spec: \<^verbatim>\<open>Material.setParameter\<close> of the base class (material.js is
  not among the sources), which stores the value in the material's bound-parameter table
  under the name. Called with the array of two entries alone it stores each entry's
  \<^verbatim>\<open>Float32Array\<close> under the entry's name.
\<close>

definition setParameter :: "pkey \<Rightarrow> jsval \<Rightarrow> state \<Rightarrow> state" where
  "setParameter name data s =
     (case name of
        PName n \<Rightarrow> s\<lparr> parameters := (parameters s)(n \<mapsto> data) \<rparr>
      | PEntries slot \<Rightarrow>
          (if data = JUndefined then
             s\<lparr> parameters := (parameters s)(entry_name slot 0 \<mapsto> JEntry slot 0,
                                                  entry_name slot 1 \<mapsto> JEntry slot 1) \<rparr>
           else s\<lparr> parameters := (parameters s)(key_of name \<mapsto> data) \<rparr>))"

text \<open>
  Modelled from the spec: \<^verbatim>\<open>Material.clearVariants\<close> of the base class (material.js is
  not among the sources), which drops the shader variants compiled for the material.
\<close>

definition clearVariants :: "state \<Rightarrow> state" where
  "clearVariants s = s\<lparr> variants := [] \<rparr>"

text \<open>
  The methods \<^verbatim>\<open>_setParameter\<close>, \<^verbatim>\<open>_setParameters\<close>, \<^verbatim>\<open>_processParameters\<close>,
  \<^verbatim>\<open>_updateMap\<close> and \<^verbatim>\<open>_allocUniform\<close>: \<open>p_\<close> stands for the leading underscore.
\<close>

definition p_setParameter :: "pkey \<Rightarrow> jsval \<Rightarrow> state \<Rightarrow> state" where
  "p_setParameter name data s =
     setParameter name data (s\<lparr> sets := (sets s)(params s := set_add name (sets s (params s))) \<rparr>)"

text \<open>\<^verbatim>\<open>_setParameters(uniform)\<close> for the array of two entries cached in a slot:
  \<^verbatim>\<open>forEach\<close> visits the two entries in their order.\<close>

definition p_setParameters :: "string \<Rightarrow> state \<Rightarrow> state" where
  "p_setParameters slot s =
     p_setParameter (PName (entry_name slot 1)) (JEntry slot 1)
       (p_setParameter (PName (entry_name slot 0)) (JEntry slot 0) s)"

datatype params_field = ActiveParams | ActiveLightingParams

definition get_field :: "params_field \<Rightarrow> state \<Rightarrow> nat" where
  "get_field f s = (case f of ActiveParams \<Rightarrow> activeParams s | ActiveLightingParams \<Rightarrow> activeLightingParams s)"

definition set_field :: "params_field \<Rightarrow> nat \<Rightarrow> state \<Rightarrow> state" where
  "set_field f v s =
     (case f of ActiveParams \<Rightarrow> s\<lparr> activeParams := v \<rparr>
              | ActiveLightingParams \<Rightarrow> s\<lparr> activeLightingParams := v \<rparr>)"

text \<open>The body of \<^verbatim>\<open>prevParams.forEach\<close> in \<^verbatim>\<open>_processParameters\<close>.\<close>

definition delete_unused :: "pkey jsset \<Rightarrow> pkey \<Rightarrow> (string \<rightharpoonup> jsval) \<Rightarrow> (string \<rightharpoonup> jsval)" where
  "delete_unused cur param tbl = (if \<not> set_has cur param then tbl(key_of param := None) else tbl)"

definition p_processParameters :: "params_field \<Rightarrow> state \<Rightarrow> state" where
  "p_processParameters paramsName s =
     (let prevParams = get_field paramsName s;
          s1 = s\<lparr> parameters := fold (delete_unused (sets s (params s))) (sets s prevParams) (parameters s) \<rparr>;
          s2 = set_field paramsName (params s1) s1;
          s3 = s2\<lparr> params := prevParams \<rparr>
      in s3\<lparr> sets := (sets s3)(params s3 := set_clear) \<rparr>)"

text \<open>\<^verbatim>\<open>_allocUniform\<close> on one of the two maps of the cache: the cached object, or the
  newly allocated one, stored.\<close>

definition p_allocUniform :: "(string \<rightharpoonup> 'u) \<Rightarrow> string \<Rightarrow> 'u \<Rightarrow> 'u \<times> (string \<rightharpoonup> 'u)" where
  "p_allocUniform cache name allocated =
     (case cache name of
        Some uniform \<Rightarrow> (uniform, cache)
      | None \<Rightarrow> (allocated, cache(name \<mapsto> allocated)))"

text \<open>\<^verbatim>\<open>new Float32Array(3)\<close>.\<close>

definition new_Float32Array3 :: float32x3 where
  "new_Float32Array3 = (Some 0, Some 0, Some 0)"

subsection \<open>The uniform functions\<close>

text \<open>What the uniform functions read of the scene; \<open>skyboxRotation_isIdentity\<close> is
  \<^verbatim>\<open>scene.skyboxRotation.equals(Quat.IDENTITY)\<close>, and \<open>skyboxRotationMat3\<close> is
  \<^verbatim>\<open>scene._skyboxRotationMat3\<close> with its \<^verbatim>\<open>data\<close>.\<close>

record scene =
  gammaCorrection :: jsval
  scene_envAtlas :: jsval
  scene_skybox :: jsval
  skyboxRotation_isIdentity :: bool
  skyboxRotationMat3 :: jsval
  skyboxRotationMat3_data :: jsval

text \<open>The uniform function \<^verbatim>\<open>_defineColor\<close> registers. \<^verbatim>\<open>material[name]\<close> goes through
  the getter. Called without a scene, \<^verbatim>\<open>scene.gammaCorrection\<close> throws when it is
  reached. The three assignments store into the \<^verbatim>\<open>Float32Array\<close>.\<close>

definition uniform_color :: "string \<Rightarrow> scene option \<Rightarrow> state \<Rightarrow> (jsval \<times> state) result" where
  "uniform_color name scn s =
     (let (uniform, cache) = p_allocUniform (cacheArrays s) name new_Float32Array3;
          s1 = s\<lparr> cacheArrays := cache \<rparr>;
          (c, s2) = color_getter name s1
      in if truthy (vals s2 ''useGammaTonemap'') then
           (case scn of
              None \<Rightarrow> Inl (TypeError, s2)
            | Some sc \<Rightarrow>
                if truthy (gammaCorrection sc) then
                  Inr (JArray name,
                       s2\<lparr> cacheArrays := (cacheArrays s2)(name \<mapsto>
                             (float32 (math_pow (Some (col_r c)) (Some 2.2)),
                              float32 (math_pow (Some (col_g c)) (Some 2.2)),
                              float32 (math_pow (Some (col_b c)) (Some 2.2)))) \<rparr>)
                else
                  Inr (JArray name,
                       s2\<lparr> cacheArrays := (cacheArrays s2)(name \<mapsto>
                             (float32 (Some (col_r c)), float32 (Some (col_g c)),
                              float32 (Some (col_b c)))) \<rparr>))
         else
           Inr (JArray name,
                s2\<lparr> cacheArrays := (cacheArrays s2)(name \<mapsto>
                      (float32 (Some (col_r c)), float32 (Some (col_g c)),
                       float32 (Some (col_b c)))) \<rparr>))"

text \<open>The uniform function \<^verbatim>\<open>_defineTex2D\<close> registers as \<^verbatim>\<open><name>MapTransform\<close>.\<close>

definition uniform_mapTransform :: "string \<Rightarrow> state \<Rightarrow> jsval \<times> state" where
  "uniform_mapTransform name s =
     (let mapTransform = name @ ''MapTransform'';
          tiling = vec2s s (name @ ''MapTiling'');
          offset = vec2s s (name @ ''MapOffset'');
          rotation = vals s (name @ ''MapRotation'')
      in if v2x tiling = 1 \<and> v2y tiling = 1 \<and> v2x offset = 0 \<and> v2y offset = 0 \<and>
            strict_eq rotation (JNum 0) then (JNull, s)
         else
           (let (uniform, cache) =
                  p_allocUniform (cacheEntries s) mapTransform
                    (new_Float32Array3, new_Float32Array3);
                cr = map_option cos (num_op (*) (num_of rotation) (Some DEG_TO_RAD));
                sr = map_option sin (num_op (*) (num_of rotation) (Some DEG_TO_RAD));
                uniform0 = (float32 (num_op (*) cr (Some (v2x tiling))),
                            float32 (num_op (*) (map_option uminus sr) (Some (v2y tiling))),
                            float32 (Some (v2x offset)));
                uniform1 = (float32 (num_op (*) sr (Some (v2x tiling))),
                            float32 (num_op (*) cr (Some (v2y tiling))),
                            float32 (Some (1 - v2y tiling - v2y offset)))
            in (JEntries mapTransform,
                s\<lparr> cacheEntries := cache(mapTransform \<mapsto> (uniform0, uniform1)) \<rparr>)))"

text \<open>The uniform functions of \<^verbatim>\<open>shininess\<close> and \<^verbatim>\<open>heightMapFactor\<close>.\<close>

definition uniform_shininess :: "constants \<Rightarrow> state \<Rightarrow> jsval" where
  "uniform_shininess C s =
     (if strict_eq (vals s ''shadingModel'') (SPECULAR_PHONG C) then
        of_num (math_pow (Some 2)
          (num_op (*) (num_op (*) (num_of (vals s ''shininess'')) (Some 0.01)) (Some 11)))
      else of_num (num_op (*) (num_of (vals s ''shininess'')) (Some 0.01)))"

definition uniform_heightMapFactor :: "state \<Rightarrow> jsval" where
  "uniform_heightMapFactor s = of_num (num_op (*) (num_of (vals s ''heightMapFactor'')) (Some 0.025))"

text \<open>The uniform function of \<^verbatim>\<open>cubeMapProjectionBox\<close>: the array is allocated before
  \<^verbatim>\<open>material.cubeMapProjectionBox.getMin()\<close> is called, which throws unless the
  property holds a bounding box.\<close>

definition uniform_cubeMapProjectionBox :: "state \<Rightarrow> (jsval \<times> state) result" where
  "uniform_cubeMapProjectionBox s =
     (let (uniform, cache) =
            p_allocUniform (cacheEntries s) ''cubeMapProjectionBox''
              (new_Float32Array3, new_Float32Array3);
          s1 = s\<lparr> cacheEntries := cache \<rparr>
      in case vals s1 ''cubeMapProjectionBox'' of
           JBox bx \<Rightarrow>
             Inr (JEntries ''cubeMapProjectionBox'',
                  s1\<lparr> cacheEntries := cache(''cubeMapProjectionBox'' \<mapsto>
                        ((float32 (Some (v3x (box_min bx))), float32 (Some (v3y (box_min bx))),
                          float32 (Some (v3z (box_min bx)))),
                         (float32 (Some (v3x (box_max bx))), float32 (Some (v3y (box_max bx))),
                          float32 (Some (v3z (box_max bx)))))) \<rparr>)
         | _ \<Rightarrow> Inl (TypeError, s1))"

text \<open>\<^verbatim>\<open>getUniform(name, device, scene)\<close>, that is \<^verbatim>\<open>_uniforms[name](this, device, scene)\<close>:
  a name with no uniform function (\<^verbatim>\<open>_defineFloat\<close> and \<^verbatim>\<open>_defineObject\<close> register
  \<^verbatim>\<open>undefined\<close> when they are given none) throws; the names \<^verbatim>\<open>_uniforms\<close> inherits from
  \<^verbatim>\<open>Object.prototype\<close> are left out. No uniform function reads the device.\<close>

definition getUniform :: "constants \<Rightarrow> string \<Rightarrow> scene option \<Rightarrow> state \<Rightarrow> (jsval \<times> state) result" where
  "getUniform C name scn s =
     (if name \<in> set color_props then uniform_color name scn s
      else if name = ''shininess'' then Inr (uniform_shininess C s, s)
      else if name = ''heightMapFactor'' then Inr (uniform_heightMapFactor s, s)
      else if name = ''cubeMapProjectionBox'' then uniform_cubeMapProjectionBox s
      else (case find (\<lambda>p. p @ ''MapTransform'' = name) matTex2D of
              Some p \<Rightarrow> Inr (uniform_mapTransform p s)
            | None \<Rightarrow> Inl (TypeError, s)))"

subsection \<open>Statements\<close>

text \<open>Statements run in sequence until one throws.\<close>

fun seq :: "(state \<Rightarrow> state result) list \<Rightarrow> state \<Rightarrow> state result" where
  "seq [] s = Inr s"
| "seq (f # fs) s = (case f s of Inl e \<Rightarrow> Inl e | Inr s' \<Rightarrow> seq fs s')"

definition if_then :: "(state \<Rightarrow> bool) \<Rightarrow> (state \<Rightarrow> state result) \<Rightarrow> state \<Rightarrow> state result" where
  "if_then c f s = (if c s then f s else Inr s)"

definition if_else ::
  "(state \<Rightarrow> bool) \<Rightarrow> (state \<Rightarrow> state result) \<Rightarrow> (state \<Rightarrow> state result) \<Rightarrow> state \<Rightarrow> state result" where
  "if_else c f h s = (if c s then f s else h s)"

text \<open>\<^verbatim>\<open>this._setParameter(pname, e)\<close> for an expression of the properties.\<close>

definition set_value :: "string \<Rightarrow> (state \<Rightarrow> jsval) \<Rightarrow> state \<Rightarrow> state result" where
  "set_value pname e s = Inr (p_setParameter (PName pname) (e s) s)"

text \<open>\<^verbatim>\<open>this._setParameter(pname, getUniform(uname))\<close>.\<close>

definition set_uniform :: "constants \<Rightarrow> scene \<Rightarrow> string \<Rightarrow> string \<Rightarrow> state \<Rightarrow> state result" where
  "set_uniform C sc pname uname s =
     (case getUniform C uname (Some sc) s of
        Inl e \<Rightarrow> Inl e
      | Inr (v, s') \<Rightarrow> Inr (p_setParameter (PName pname) v s'))"

text \<open>\<^verbatim>\<open>this._setParameter(getUniform('cubeMapProjectionBox'))\<close>: the array of entries is
  the first argument, the second is \<^verbatim>\<open>undefined\<close>.\<close>

definition set_box_uniform :: "constants \<Rightarrow> scene \<Rightarrow> state \<Rightarrow> state result" where
  "set_box_uniform C sc s =
     (case getUniform C ''cubeMapProjectionBox'' (Some sc) s of
        Inl e \<Rightarrow> Inl e
      | Inr (v, s') \<Rightarrow> Inr (p_setParameter (PEntries ''cubeMapProjectionBox'') JUndefined s'))"

text \<open>\<^verbatim>\<open>_updateMap(p)\<close>; \<^verbatim>\<open>this.getUniform(tname)\<close> passes no scene.\<close>

definition p_updateMap :: "constants \<Rightarrow> string \<Rightarrow> state \<Rightarrow> state result" where
  "p_updateMap C p s =
     (let mname = p @ ''Map'';
          mp = vals s mname
      in if truthy mp then
           (let s1 = p_setParameter (PName (''texture_'' @ mname)) mp s;
                tname = mname @ ''Transform''
            in case getUniform C tname None s1 of
                 Inl e \<Rightarrow> Inl e
               | Inr (uniform, s2) \<Rightarrow>
                   if truthy uniform then Inr (p_setParameters tname s2) else Inr s2)
         else Inr s)"

section \<open>updateUniforms and updateEnvUniforms\<close>

definition isPhong :: "constants \<Rightarrow> state \<Rightarrow> bool" where
  "isPhong C s = strict_eq (vals s ''shadingModel'') (SPECULAR_PHONG C)"

text \<open>\<^verbatim>\<open>f0 * f0\<close> with \<^verbatim>\<open>f0 = (1 / refractionIndex - 1) / (1 / refractionIndex + 1)\<close>,
  computed where \<^verbatim>\<open>refractionIndex > 0\<close>.\<close>

definition material_f0 :: "state \<Rightarrow> jsval" where
  "material_f0 s =
     (let oneOverRefractionIndex = num_op (/) (Some 1) (num_of (vals s ''refractionIndex''));
          f0 = num_op (/) (num_op (-) oneOverRefractionIndex (Some 1))
                          (num_op (+) oneOverRefractionIndex (Some 1))
      in of_num (num_op (*) f0 f0))"

text \<open>\<^verbatim>\<open>this.attenuationDistance === 0 ? 0 : 1.0 / this.attenuationDistance\<close>.\<close>

definition invAttenuationDistance :: "state \<Rightarrow> jsval" where
  "invAttenuationDistance s =
     (if strict_eq (vals s ''attenuationDistance'') (JNum 0) then JNum 0
      else of_num (num_op (/) (Some 1) (num_of (vals s ''attenuationDistance''))))"

text \<open>The statements of \<^verbatim>\<open>updateUniforms\<close> before \<^verbatim>\<open>_processParameters\<close>, in their order.\<close>

definition updateUniforms_params :: "constants \<Rightarrow> scene \<Rightarrow> state \<Rightarrow> state result" where
  "updateUniforms_params C sc =
     seq [
       set_uniform C sc ''material_ambient'' ''ambient'',
       if_then (\<lambda>s. \<not> truthy (vals s ''diffuseMap'') \<or> truthy (vals s ''diffuseTint''))
         (set_uniform C sc ''material_diffuse'' ''diffuse''),
       if_else (\<lambda>s. \<not> truthy (vals s ''useMetalness''))
         (if_then (\<lambda>s. \<not> truthy (vals s ''specularMap'') \<or> truthy (vals s ''specularTint''))
            (set_uniform C sc ''material_specular'' ''specular''))
         (seq [
            if_then (\<lambda>s. \<not> truthy (vals s ''metalnessMap'') \<or>
                          js_lt (num_of (vals s ''metalness'')) (Some 1))
              (set_value ''material_metalness'' (\<lambda>s. vals s ''metalness'')),
            if_then (\<lambda>s. \<not> truthy (vals s ''specularMap'') \<or> truthy (vals s ''specularTint''))
              (set_uniform C sc ''material_specular'' ''specular''),
            if_then (\<lambda>s. \<not> truthy (vals s ''specularityFactorMap'') \<or>
                          truthy (vals s ''specularityFactorTint''))
              (set_value ''material_specularityFactor'' (\<lambda>s. vals s ''specularityFactor'')),
            if_then (\<lambda>s. \<not> truthy (vals s ''sheenMap'') \<or> truthy (vals s ''sheenTint''))
              (set_uniform C sc ''material_sheen'' ''sheen''),
            if_then (\<lambda>s. \<not> truthy (vals s ''sheenGlossinessMap'') \<or>
                          truthy (vals s ''sheenGlossinessTint''))
              (set_value ''material_sheenGlossiness'' (\<lambda>s. vals s ''sheenGlossiness'')),
            if_else (\<lambda>s. js_gt (num_of (vals s ''refractionIndex'')) (Some 0))
              (set_value ''material_f0'' material_f0)
              (set_value ''material_f0'' (\<lambda>s. JNum 1))]),
       if_then (\<lambda>s. truthy (vals s ''enableGGXSpecular''))
         (set_value ''material_anisotropy'' (\<lambda>s. vals s ''anisotropy'')),
       if_then (\<lambda>s. js_gt (num_of (vals s ''clearCoat'')) (Some 0))
         (seq [
            set_value ''material_clearCoat'' (\<lambda>s. vals s ''clearCoat''),
            set_value ''material_clearCoatGlossiness'' (\<lambda>s. vals s ''clearCoatGlossiness''),
            set_value ''material_clearCoatReflectivity'' (\<lambda>s. vals s ''clearCoat''),
            set_value ''material_clearCoatBumpiness'' (\<lambda>s. vals s ''clearCoatBumpiness'')]),
       set_uniform C sc ''material_shininess'' ''shininess'',
       if_then (\<lambda>s. \<not> truthy (vals s ''emissiveMap'') \<or> truthy (vals s ''emissiveTint''))
         (set_uniform C sc ''material_emissive'' ''emissive''),
       if_then (\<lambda>s. \<not> strict_eq (vals s ''emissiveIntensity'') (JNum 1))
         (set_value ''material_emissiveIntensity'' (\<lambda>s. vals s ''emissiveIntensity'')),
       if_then (\<lambda>s. js_gt (num_of (vals s ''refraction'')) (Some 0))
         (seq [
            set_value ''material_refraction'' (\<lambda>s. vals s ''refraction''),
            set_value ''material_refractionIndex'' (\<lambda>s. vals s ''refractionIndex'')]),
       if_then (\<lambda>s. truthy (vals s ''useDynamicRefraction''))
         (seq [
            set_value ''material_thickness'' (\<lambda>s. vals s ''thickness''),
            set_uniform C sc ''material_attenuation'' ''attenuation'',
            set_value ''material_invAttenuationDistance'' invAttenuationDistance]),
       if_then (\<lambda>s. truthy (vals s ''useIridescence''))
         (seq [
            set_value ''material_iridescence'' (\<lambda>s. vals s ''iridescence''),
            set_value ''material_iridescenceRefractionIndex''
              (\<lambda>s. vals s ''iridescenceRefractionIndex''),
            set_value ''material_iridescenceThicknessMin'' (\<lambda>s. vals s ''iridescenceThicknessMin''),
            set_value ''material_iridescenceThicknessMax'' (\<lambda>s. vals s ''iridescenceThicknessMax'')]),
       set_value ''material_opacity'' (\<lambda>s. vals s ''opacity''),
       if_then (\<lambda>s. strict_eq (vals s ''opacityFadesSpecular'') (JBool False))
         (set_value ''material_alphaFade'' (\<lambda>s. vals s ''alphaFade'')),
       if_then (\<lambda>s. truthy (vals s ''occludeSpecular''))
         (set_value ''material_occludeSpecularIntensity'' (\<lambda>s. vals s ''occludeSpecularIntensity'')),
       if_then (\<lambda>s. strict_eq (vals s ''cubeMapProjection'') (CUBEPROJ_BOX C))
         (set_box_uniform C sc),
       seq (map (p_updateMap C) matTex2D),
       if_then (\<lambda>s. truthy (vals s ''ambientSH''))
         (set_value ''ambientSH[0]'' (\<lambda>s. vals s ''ambientSH'')),
       if_then (\<lambda>s. truthy (vals s ''normalMap''))
         (set_value ''material_bumpiness'' (\<lambda>s. vals s ''bumpiness'')),
       if_then (\<lambda>s. truthy (vals s ''normalMap'') \<and> truthy (vals s ''normalDetailMap''))
         (set_value ''material_normalDetailMapBumpiness'' (\<lambda>s. vals s ''normalDetailMapBumpiness'')),
       if_then (\<lambda>s. truthy (vals s ''heightMap''))
         (set_uniform C sc ''material_heightMapFactor'' ''heightMapFactor''),
       if_else (\<lambda>s. truthy (vals s ''envAtlas'') \<and> truthy (vals s ''cubeMap'') \<and> \<not> isPhong C s)
         (seq [
            set_value ''texture_envAtlas'' (\<lambda>s. vals s ''envAtlas''),
            set_value ''texture_cubeMap'' (\<lambda>s. vals s ''cubeMap'')])
         (if_else (\<lambda>s. truthy (vals s ''envAtlas'') \<and> \<not> isPhong C s)
            (set_value ''texture_envAtlas'' (\<lambda>s. vals s ''envAtlas''))
            (if_else (\<lambda>s. truthy (vals s ''cubeMap''))
               (set_value ''texture_cubeMap'' (\<lambda>s. vals s ''cubeMap''))
               (if_then (\<lambda>s. truthy (vals s ''sphereMap''))
                  (set_value ''texture_sphereMap'' (\<lambda>s. vals s ''sphereMap''))))),
       set_value ''material_reflectivity'' (\<lambda>s. vals s ''reflectivity'')]"

text \<open>\<^verbatim>\<open>updateUniforms(device, scene)\<close>; the device is not read.\<close>

definition updateUniforms :: "constants \<Rightarrow> scene \<Rightarrow> state \<Rightarrow> state result" where
  "updateUniforms C sc s =
     (case updateUniforms_params C sc s of
        Inl e \<Rightarrow> Inl e
      | Inr s1 \<Rightarrow>
          (let s2 = p_processParameters ActiveParams s1
           in Inr (if dirtyShader s2 then clearVariants s2 else s2)))"

definition hasLocalEnvOverride :: "constants \<Rightarrow> state \<Rightarrow> bool" where
  "hasLocalEnvOverride C s =
     ((truthy (vals s ''envAtlas'') \<and> \<not> isPhong C s) \<or> truthy (vals s ''cubeMap'') \<or>
      truthy (vals s ''sphereMap''))"

text \<open>The statements of \<^verbatim>\<open>updateEnvUniforms\<close> before \<^verbatim>\<open>_processParameters\<close>.\<close>

definition updateEnvUniforms_params :: "constants \<Rightarrow> scene \<Rightarrow> state \<Rightarrow> state result" where
  "updateEnvUniforms_params C sc =
     if_then (\<lambda>s. \<not> hasLocalEnvOverride C s \<and> truthy (vals s ''useSkybox''))
       (seq [
          if_else (\<lambda>s. truthy (scene_envAtlas sc) \<and> truthy (scene_skybox sc) \<and> \<not> isPhong C s)
            (seq [
               set_value ''texture_envAtlas'' (\<lambda>s. scene_envAtlas sc),
               set_value ''texture_cubeMap'' (\<lambda>s. scene_skybox sc)])
            (if_else (\<lambda>s. truthy (scene_envAtlas sc) \<and> \<not> isPhong C s)
               (set_value ''texture_envAtlas'' (\<lambda>s. scene_envAtlas sc))
               (if_then (\<lambda>s. truthy (scene_skybox sc))
                  (set_value ''texture_cubeMap'' (\<lambda>s. scene_skybox sc)))),
          if_then (\<lambda>s. \<not> skyboxRotation_isIdentity sc \<and> truthy (skyboxRotationMat3 sc))
            (set_value ''cubeMapRotationMatrix'' (\<lambda>s. skyboxRotationMat3_data sc))])"

text \<open>\<^verbatim>\<open>updateEnvUniforms(device, scene)\<close>.\<close>

definition updateEnvUniforms :: "constants \<Rightarrow> scene \<Rightarrow> state \<Rightarrow> state result" where
  "updateEnvUniforms C sc s =
     (case updateEnvUniforms_params C sc s of
        Inl e \<Rightarrow> Inl e
      | Inr s1 \<Rightarrow> Inr (p_processParameters ActiveLightingParams s1))"

section \<open>getShaderVariant\<close>

text \<open>
  The shader generator options are a bag of named values. The options builder
  (\<^verbatim>\<open>StandardMaterialOptionsBuilder\<close>), the program library of the device, the shared
  option objects of \<^verbatim>\<open>standard\<close>, \<^verbatim>\<open>ShaderPass.isShadow\<close> and the function the material
  holds in \<^verbatim>\<open>onUpdateShader\<close> are not among the sources: \<^verbatim>\<open>getShaderVariant\<close> takes them
  as a parameter. Each acts on a world \<open>'w\<close> of its own, may throw, and the builder and
  the callback (which are handed the material) may change the material. \<open>onUpdateShader\<close>
  of the state is a reference to the function, which \<open>callback\<close> calls.
\<close>

type_synonym options = "string \<rightharpoonup> jsval"

record 'w externals =
  isShadow :: "jsval \<Rightarrow> bool"
  optionsContext :: options
  optionsContextMin :: options
  updateRef ::
    "options \<Rightarrow> scene \<Rightarrow> state \<Rightarrow> jsval \<Rightarrow> jsval \<Rightarrow> jsval \<Rightarrow> jsval \<Rightarrow> 'w
       \<Rightarrow> (js_error + options) \<times> state \<times> 'w"
  updateMinRef ::
    "options \<Rightarrow> scene \<Rightarrow> state \<Rightarrow> jsval \<Rightarrow> jsval \<Rightarrow> jsval \<Rightarrow> jsval \<Rightarrow> 'w
       \<Rightarrow> (js_error + options) \<times> state \<times> 'w"
  callback :: "nat \<Rightarrow> options \<Rightarrow> state \<Rightarrow> 'w \<Rightarrow> (js_error + options) \<times> state \<times> 'w"
  libraryRegister :: "string \<Rightarrow> 'w \<Rightarrow> 'w"
  getProgram :: "string \<Rightarrow> options \<Rightarrow> jsval \<times> jsval \<Rightarrow> 'w \<Rightarrow> (js_error + jsval) \<times> 'w"

text \<open>\<^verbatim>\<open>getShaderVariant(device, scene, objDefs, staticLightList, pass, sortedLights,
  viewUniformFormat, viewBindGroupFormat)\<close>: the shader, or the error thrown, with the
  material and the world of the collaborators after the call.\<close>

definition getShaderVariant ::
  "'w externals \<Rightarrow> constants \<Rightarrow> scene \<Rightarrow> jsval \<Rightarrow> jsval \<Rightarrow> jsval \<Rightarrow> jsval \<Rightarrow> jsval \<Rightarrow> jsval
     \<Rightarrow> state \<Rightarrow> 'w \<Rightarrow> (js_error + jsval) \<times> state \<times> 'w" where
  "getShaderVariant X C sc objDefs staticLightList pass sortedLights viewUniformFormat
     viewBindGroupFormat s w =
     (case updateEnvUniforms C sc s of
        Inl (e, s0) \<Rightarrow> (Inl e, s0, w)
      | Inr s0 \<Rightarrow>
          (let minimalOptions =
                 (strict_eq pass (SHADER_DEPTH C) \<or> strict_eq pass (SHADER_PICK C) \<or> isShadow X pass);
               options = (if minimalOptions then optionsContextMin X else optionsContext X);
               (built, s1, w1) =
                 (if minimalOptions then
                    updateMinRef X options sc s0 objDefs staticLightList pass sortedLights w
                  else
                    updateRef X options sc s0 objDefs staticLightList pass sortedLights w)
           in case built of
                Inl e \<Rightarrow> (Inl e, s1, w1)
              | Inr options1 \<Rightarrow>
                  (let (called, s2, w2) =
                         (case onUpdateShader s1 of
                            Some f \<Rightarrow> callback X f options1 s1 w1
                          | None \<Rightarrow> (Inr options1, s1, w1))
                   in case called of
                        Inl e \<Rightarrow> (Inl e, s2, w2)
                      | Inr options2 \<Rightarrow>
                          (let processingOptions = (viewUniformFormat, viewBindGroupFormat);
                               w3 = libraryRegister X ''standard'' w2;
                               (shader, w4) = getProgram X ''standard'' options2 processingOptions w3
                           in case shader of
                                Inl e \<Rightarrow> (Inl e, s2, w4)
                              | Inr sh \<Rightarrow> (Inr sh, s2\<lparr> dirtyShader := False \<rparr>, w4)))))"

section \<open>The other accessors, and a material as the constructor leaves it\<close>

text \<open>The setter of \<^verbatim>\<open>prefilteredCubemaps\<close>. The array a caller passes is a list
  (\<^verbatim>\<open>value || []\<close> makes the empty list of a missing one); \<open>atlas\<close> is what
  \<^verbatim>\<open>EnvLighting.generatePrefilteredAtlas\<close>, which is not among the sources, returns.\<close>

definition array_get :: "jsval list \<Rightarrow> nat \<Rightarrow> jsval" where
  "array_get xs i = (if i < length xs then xs ! i else JUndefined)"

fun cubemaps_loop :: "nat list \<Rightarrow> jsval list \<Rightarrow> (nat \<Rightarrow> jsval) \<times> bool \<times> bool \<Rightarrow> (nat \<Rightarrow> jsval) \<times> bool \<times> bool" where
  "cubemaps_loop [] vs acc = acc"
| "cubemaps_loop (i # is) vs (cubemaps, changed, is_complete) =
     (let v = (if truthy (array_get vs i) then array_get vs i else JNull);
          differs = \<not> strict_eq (cubemaps i) v;
          cubemaps' = (if differs then cubemaps(i := v) else cubemaps)
      in cubemaps_loop is vs (cubemaps', changed \<or> differs, is_complete \<and> truthy (cubemaps' i)))"

definition set_prefilteredCubemaps :: "jsval list \<Rightarrow> jsval \<Rightarrow> state \<Rightarrow> state" where
  "set_prefilteredCubemaps vs atlas s =
     (let (cubemaps, changed, is_complete) =
            cubemaps_loop [0, 1, 2, 3, 4, 5] vs (prefilteredCubemaps s, False, True);
          s1 = s\<lparr> prefilteredCubemaps := cubemaps \<rparr>
      in if changed then
           (let s2 = (if is_complete then assign ''envAtlas'' atlas s1
                      else if truthy (vals s1 ''envAtlas'') then assign ''envAtlas'' JNull s1
                      else s1)
            in s2\<lparr> dirtyShader := True \<rparr>)
         else s1)"

text \<open>\<^verbatim>\<open>material[name] = v\<close> for a colour and for a two-component vector.\<close>

definition assign_color :: "string \<Rightarrow> color \<Rightarrow> state \<Rightarrow> state" where
  "assign_color name v s =
     (if name \<in> set color_props then defineAggProp_setter_color name v s
      else s\<lparr> colors := (colors s)(name := v) \<rparr>)"

definition assign_vec2 :: "string \<Rightarrow> vec2 \<Rightarrow> state \<Rightarrow> state" where
  "assign_vec2 name v s =
     (if name \<in> set vec2_props then defineAggProp_setter_vec2 name v s
      else s\<lparr> vec2s := (vec2s s)(name := v) \<rparr>)"

text \<open>A change made in place to the aggregate a getter returned, as in
  \<^verbatim>\<open>material.ambient.r = 0.5\<close>: the read, then the new components.\<close>

definition mutate_color :: "string \<Rightarrow> color \<Rightarrow> state \<Rightarrow> state" where
  "mutate_color name v s = (let s1 = read_prop name s in s1\<lparr> colors := (colors s1)(name := v) \<rparr>)"

definition mutate_vec2 :: "string \<Rightarrow> vec2 \<Rightarrow> state \<Rightarrow> state" where
  "mutate_vec2 name v s = (let s1 = read_prop name s in s1\<lparr> vec2s := (vec2s s1)(name := v) \<rparr>)"

text \<open>
  The default values \<^verbatim>\<open>_defineMaterialProps\<close> registers. The constants among them are
  those of \<^verbatim>\<open>scene/constants.js\<close>.
\<close>

record default_constants =
  SPECOCC_AO :: jsval
  SPECULAR_BLINN :: jsval
  FRESNEL_SCHLICK :: jsval
  CUBEPROJ_NONE :: jsval
  DETAILMODE_MUL :: jsval

definition float_defaults :: "(string \<times> jsval) list" where
  "float_defaults =
     [(''emissiveIntensity'', JNum 1), (''specularityFactor'', JNum 1),
      (''sheenGlossiness'', JNum 0), (''shininess'', JNum 25), (''heightMapFactor'', JNum 1),
      (''opacity'', JNum 1), (''alphaFade'', JNum 1), (''alphaTest'', JNum 0),
      (''bumpiness'', JNum 1), (''normalDetailMapBumpiness'', JNum 1),
      (''reflectivity'', JNum 1), (''occludeSpecularIntensity'', JNum 1),
      (''refraction'', JNum 0), (''refractionIndex'', JNum (1 / 1.5)), (''thickness'', JNum 0),
      (''attenuationDistance'', JNum 0), (''metalness'', JNum 1), (''anisotropy'', JNum 0),
      (''clearCoat'', JNum 0), (''clearCoatGlossiness'', JNum 1),
      (''clearCoatBumpiness'', JNum 1), (''aoUvSet'', JNum 0), (''iridescence'', JNum 0),
      (''iridescenceRefractionIndex'', JNum (1 / 1.5)), (''iridescenceThicknessMin'', JNum 0),
      (''iridescenceThicknessMax'', JNum 0)]"

definition flag_defaults :: "default_constants \<Rightarrow> (string \<times> jsval) list" where
  "flag_defaults D =
     [(''ambientTint'', JBool False), (''diffuseTint'', JBool False),
      (''specularTint'', JBool False), (''specularityFactorTint'', JBool False),
      (''emissiveTint'', JBool False), (''fastTbn'', JBool False),
      (''useMetalness'', JBool False), (''useMetalnessSpecularColor'', JBool False),
      (''useSheen'', JBool False), (''enableGGXSpecular'', JBool False),
      (''occludeDirect'', JBool False), (''normalizeNormalMap'', JBool True),
      (''conserveEnergy'', JBool True), (''opacityFadesSpecular'', JBool True),
      (''occludeSpecular'', SPECOCC_AO D), (''shadingModel'', SPECULAR_BLINN D),
      (''fresnelModel'', FRESNEL_SCHLICK D), (''useDynamicRefraction'', JBool False),
      (''cubeMapProjection'', CUBEPROJ_NONE D), (''customFragmentShader'', JNull),
      (''forceFragmentPrecision'', JNull), (''useFog'', JBool True),
      (''useLighting'', JBool True), (''useGammaTonemap'', JBool True),
      (''useSkybox'', JBool True), (''forceUv1'', JBool False), (''pixelSnap'', JBool False),
      (''twoSidedLighting'', JBool False), (''nineSlicedMode'', JUndefined),
      (''msdfTextAttribute'', JBool False), (''useIridescence'', JBool False)]"

definition tex2d_defaults ::
  "default_constants \<Rightarrow> string \<times> int \<times> int \<times> string \<times> bool \<times> bool \<Rightarrow> (string \<times> jsval) list" where
  "tex2d_defaults D d =
     (case d of (name, uv, channels, defChannel, vertexColor, detailMode) \<Rightarrow>
        (let channel = JStr (if defChannel \<noteq> [] then defChannel
                             else if channels > 1 then ''rgb'' else ''g'')
         in [(name @ ''Map'', JNull), (name @ ''MapRotation'', JNum 0),
             (name @ ''MapUv'', JNum (of_int uv))]
            @ (if channels > 0 then [(name @ ''MapChannel'', channel)] else [])
            @ (if vertexColor then
                 [(name @ ''VertexColor'', JBool False)]
                 @ (if channels > 0 then [(name @ ''VertexColorChannel'', channel)] else [])
               else [])
            @ (if detailMode then [(name @ ''Mode'', DETAILMODE_MUL D)] else [])))"

definition default_values :: "default_constants \<Rightarrow> (string \<times> jsval) list" where
  "default_values D =
     float_defaults @ map (\<lambda>n. (n, JNull)) object_props @ flag_defaults D
     @ concat (map (tex2d_defaults D) tex2d_defs)"

definition default_colors :: "(string \<times> color) list" where
  "default_colors =
     [(''ambient'', \<lparr>col_r = 0.7, col_g = 0.7, col_b = 0.7, col_a = 1\<rparr>),
      (''diffuse'', \<lparr>col_r = 1, col_g = 1, col_b = 1, col_a = 1\<rparr>),
      (''specular'', \<lparr>col_r = 0, col_g = 0, col_b = 0, col_a = 1\<rparr>),
      (''emissive'', \<lparr>col_r = 0, col_g = 0, col_b = 0, col_a = 1\<rparr>),
      (''sheen'', \<lparr>col_r = 1, col_g = 1, col_b = 1, col_a = 1\<rparr>),
      (''attenuation'', \<lparr>col_r = 1, col_g = 1, col_b = 1, col_a = 1\<rparr>)]"

text \<open>
  The first material constructed after the module is loaded: the module's \<^verbatim>\<open>_params\<close> is
  the \<^verbatim>\<open>Set\<close> object 0, the constructor allocates the objects 1 and 2, sets the flag and
  calls \<^verbatim>\<open>reset()\<close>, which gives every property its default value and empties the chunks
  and the uniform cache. A name that is no property reads \<^verbatim>\<open>undefined\<close>.
\<close>

definition new_StandardMaterial :: "default_constants \<Rightarrow> state" where
  "new_StandardMaterial D =
     \<lparr> vals = (\<lambda>n. case map_of (default_values D) n of Some v \<Rightarrow> v | None \<Rightarrow> JUndefined),
       colors = (\<lambda>n. case map_of default_colors n of Some c \<Rightarrow> c
                      | None \<Rightarrow> \<lparr>col_r = 0, col_g = 0, col_b = 0, col_a = 1\<rparr>),
       vec2s = (\<lambda>n. if n \<in> set (map (\<lambda>p. p @ ''MapTiling'') matTex2D)
                     then \<lparr>v2x = 1, v2y = 1\<rparr> else \<lparr>v2x = 0, v2y = 0\<rparr>),
       prefilteredCubemaps = (\<lambda>i. if i < 6 then JNull else JUndefined),
       dirtyShader = True,
       chunks = JObj 0,
       activeParams = 1,
       activeLightingParams = 2,
       parameters = Map.empty,
       cacheArrays = Map.empty,
       cacheEntries = Map.empty,
       onUpdateShader = None,
       variants = [],
       params = 0,
       sets = (\<lambda>a. set_clear) \<rparr>"

section \<open>Sequences of operations on a material\<close>

text \<open>
  What a caller can do to a material short of fetching a shader variant: set a property,
  read one, change a returned aggregate in place, update the uniforms or the environment
  uniforms, and upload a parameter through the base class.
\<close>

datatype op =
    Assign string jsval
  | AssignColor string color
  | AssignVec2 string vec2
  | AssignPrefilteredCubemaps "jsval list" jsval
  | Read string
  | MutateColor string color
  | MutateVec2 string vec2
  | SetChunks jsval
  | GetChunks
  | UpdateUniforms scene
  | UpdateEnvUniforms scene
  | SetParameter string jsval

fun exec :: "constants \<Rightarrow> op \<Rightarrow> state \<Rightarrow> state" where
  "exec C (Assign name v) s = assign name v s"
| "exec C (AssignColor name v) s = assign_color name v s"
| "exec C (AssignVec2 name v) s = assign_vec2 name v s"
| "exec C (AssignPrefilteredCubemaps vs atlas) s = set_prefilteredCubemaps vs atlas s"
| "exec C (Read name) s = read_prop name s"
| "exec C (MutateColor name v) s = mutate_color name v s"
| "exec C (MutateVec2 name v) s = mutate_vec2 name v s"
| "exec C (SetChunks v) s = set_chunks v s"
| "exec C GetChunks s = snd (get_chunks s)"
| "exec C (UpdateUniforms sc) s = state_after (updateUniforms C sc s)"
| "exec C (UpdateEnvUniforms sc) s = state_after (updateEnvUniforms C sc s)"
| "exec C (SetParameter name v) s = setParameter (PName name) v s"

definition run :: "constants \<Rightarrow> op list \<Rightarrow> state \<Rightarrow> state" where
  "run C ops s = fold (exec C) ops s"

section \<open>The collaborators of getShaderVariant, observed\<close>

text \<open>
  To say when a collaborator is called, each is made to record its call in the world,
  which is then the list of the calls made so far: \<open>Built\<close> by an options builder (the
  minimal one or the full one) with the options it leaves, \<open>Called\<close> for the
  \<^verbatim>\<open>onUpdateShader\<close> function with the options it is handed and those it returns,
  \<open>Registered\<close> and \<open>Requested\<close> by the program library. The builders, the function
  and the library are arbitrary functions of what they are handed.
\<close>

datatype event =
    Built bool options
  | Called nat options options
  | Registered string
  | Requested string options "jsval \<times> jsval"

definition recording ::
  "(jsval \<Rightarrow> bool) \<Rightarrow> options \<Rightarrow> options
   \<Rightarrow> (options \<Rightarrow> scene \<Rightarrow> state \<Rightarrow> jsval \<Rightarrow> jsval \<Rightarrow> jsval \<Rightarrow> jsval \<Rightarrow> options)
   \<Rightarrow> (options \<Rightarrow> scene \<Rightarrow> state \<Rightarrow> jsval \<Rightarrow> jsval \<Rightarrow> jsval \<Rightarrow> jsval \<Rightarrow> options)
   \<Rightarrow> (nat \<Rightarrow> options \<Rightarrow> options)
   \<Rightarrow> (string \<Rightarrow> options \<Rightarrow> jsval \<times> jsval \<Rightarrow> jsval)
   \<Rightarrow> (event list) externals" where
  "recording shadow oc ocMin build buildMin hook prog =
     \<lparr> isShadow = shadow,
       optionsContext = oc,
       optionsContextMin = ocMin,
       updateRef = (\<lambda>opts sc s objDefs staticLightList pass sortedLights w.
          (Inr (build opts sc s objDefs staticLightList pass sortedLights), s,
           w @ [Built False (build opts sc s objDefs staticLightList pass sortedLights)])),
       updateMinRef = (\<lambda>opts sc s objDefs staticLightList pass sortedLights w.
          (Inr (buildMin opts sc s objDefs staticLightList pass sortedLights), s,
           w @ [Built True (buildMin opts sc s objDefs staticLightList pass sortedLights)])),
       callback = (\<lambda>f opts s w. (Inr (hook f opts), s, w @ [Called f opts (hook f opts)])),
       libraryRegister = (\<lambda>name w. w @ [Registered name]),
       getProgram = (\<lambda>name opts processingOptions w.
          (Inr (prog name opts processingOptions), w @ [Requested name opts processingOptions])) \<rparr>"

section \<open>Concrete inputs\<close>

text \<open>Three lights, of which \<open>lightB\<close> casts no shadow.\<close>

definition lightA :: light where
  "lightA = \<lparr>light_id = 1, castShadows = True\<rparr>"

definition lightB :: light where
  "lightB = \<lparr>light_id = 2, castShadows = False\<rparr>"

definition lightC :: light where
  "lightC = \<lparr>light_id = 3, castShadows = True\<rparr>"

text \<open>Values for the constants the material imports (constants.js is not among the
  sources; the theorems hold for any values), and a scene with gamma correction and
  neither sky box nor environment atlas.\<close>

definition engine_defaults :: default_constants where
  "engine_defaults =
     \<lparr> SPECOCC_AO = JNum 1, SPECULAR_BLINN = JNum 1, FRESNEL_SCHLICK = JNum 2,
       CUBEPROJ_NONE = JNum 0, DETAILMODE_MUL = JStr ''mul'' \<rparr>"

definition engine_constants :: constants where
  "engine_constants =
     \<lparr> CUBEPROJ_BOX = JNum 1, SPECULAR_PHONG = JNum 0, SHADER_DEPTH = JNum 2,
       SHADER_PICK = JNum 3 \<rparr>"

text \<open>A material whose shader has been fetched: the new material with the flag cleared.\<close>

definition clean_material :: state where
  "clean_material = (new_StandardMaterial engine_defaults)\<lparr> dirtyShader := False \<rparr>"

definition example_scene :: scene where
  "example_scene =
     \<lparr> gammaCorrection = JNum 1, scene_envAtlas = JNull, scene_skybox = JNull,
       skyboxRotation_isIdentity = True, skyboxRotationMat3 = JNull,
       skyboxRotationMat3_data = JUndefined \<rparr>"

text \<open>Collaborators of \<^verbatim>\<open>getShaderVariant\<close>: builders that note the pass in the options,
  a callback that adds an option of its own, and a library that hands out one shader;
  no pass is a shadow pass, and the shared option objects are empty.\<close>

definition example_build ::
  "options \<Rightarrow> scene \<Rightarrow> state \<Rightarrow> jsval \<Rightarrow> jsval \<Rightarrow> jsval \<Rightarrow> jsval \<Rightarrow> options" where
  "example_build opts sc s objDefs staticLightList pass sortedLights = opts(''pass'' \<mapsto> pass)"

definition example_buildMin ::
  "options \<Rightarrow> scene \<Rightarrow> state \<Rightarrow> jsval \<Rightarrow> jsval \<Rightarrow> jsval \<Rightarrow> jsval \<Rightarrow> options" where
  "example_buildMin opts sc s objDefs staticLightList pass sortedLights =
     opts(''pass'' \<mapsto> pass, ''minimal'' \<mapsto> JBool True)"

definition example_hook :: "nat \<Rightarrow> options \<Rightarrow> options" where
  "example_hook f opts = opts(''customised'' \<mapsto> JNum (of_nat f))"

definition example_prog :: "string \<Rightarrow> options \<Rightarrow> jsval \<times> jsval \<Rightarrow> jsval" where
  "example_prog name opts processingOptions = JObj 42"

definition example_externals :: "(event list) externals" where
  "example_externals =
     recording (\<lambda>pass. False) Map.empty Map.empty example_build example_buildMin example_hook
       example_prog"

text \<open>The material with a fetched shader and a function in \<^verbatim>\<open>onUpdateShader\<close>.\<close>

definition hooked_material :: state where
  "hooked_material = clean_material\<lparr> onUpdateShader := Some 7 \<rparr>"

text \<open>A texture, and the material with it as diffuse map, once as it is and once with an
  offset on the map.\<close>

definition example_texture :: jsval where
  "example_texture =
     JTex \<lparr> tex_id = 1, tex_type = ''default'', tex_format = 7, tex_fixCubemapSeams = False \<rparr>"

definition textured_material :: state where
  "textured_material =
     clean_material\<lparr> vals := (vals clean_material)(''diffuseMap'' := example_texture) \<rparr>"

definition offset_material :: state where
  "offset_material =
     textured_material\<lparr> vec2s := (vec2s textured_material)
       (''diffuseMapOffset'' := \<lparr>v2x = 0.5, v2y = 0\<rparr>) \<rparr>"

text \<open>The material in the middle of an update: clear coat was active in the last update
  and is not registered in this one.\<close>

definition updating_material :: state where
  "updating_material =
     clean_material
       \<lparr> parameters := [''material_ambient'' \<mapsto> JArray ''ambient'',
                         ''material_clearCoat'' \<mapsto> JNum 0.5,
                         ''material_opacity'' \<mapsto> JNum 1],
         sets := (\<lambda>a. set_clear)
           (0 := [PName ''material_ambient'', PName ''material_opacity''],
            1 := [PName ''material_ambient'', PName ''material_clearCoat'',
                  PName ''material_opacity'']) \<rparr>"

text \<open>
  A new material with a clear coat whose cubemap projection is set to the box while it
  has no projection box, so that its update throws; the material after that update;
  the material repaired, with the projection and the clear coat taken back; and the
  material after a first and after a second update with nothing in between.
\<close>

definition failing_material :: state where
  "failing_material =
     assign ''cubeMapProjection'' (CUBEPROJ_BOX engine_constants)
       (assign ''clearCoat'' (JNum (1 / 2)) (new_StandardMaterial engine_defaults))"

definition after_failed_update :: state where
  "after_failed_update = state_after (updateUniforms engine_constants example_scene failing_material)"

definition repaired_material :: state where
  "repaired_material =
     assign ''clearCoat'' (JNum 0)
       (assign ''cubeMapProjection'' (CUBEPROJ_NONE engine_defaults) after_failed_update)"

definition first_update :: state where
  "first_update = state_after (updateUniforms engine_constants example_scene repaired_material)"

definition second_update :: state where
  "second_update = state_after (updateUniforms engine_constants example_scene first_update)"

text \<open>
  A new material with box projection and a projection box; the material after its
  update; the material with the projection then switched off; and the material after
  the next update.
\<close>

definition example_box :: boundingBox where
  "example_box =
     \<lparr> box_id = 1, box_min = \<lparr>v3x = - 1, v3y = - 1, v3z = - 1\<rparr>,
       box_max = \<lparr>v3x = 1, v3y = 1, v3z = 1\<rparr> \<rparr>"

definition boxed_material :: state where
  "boxed_material =
     assign ''cubeMapProjection'' (CUBEPROJ_BOX engine_constants)
       (assign ''cubeMapProjectionBox'' (JBox example_box) (new_StandardMaterial engine_defaults))"

definition boxed_update :: state where
  "boxed_update = state_after (updateUniforms engine_constants example_scene boxed_material)"

definition unboxed_material :: state where
  "unboxed_material = assign ''cubeMapProjection'' (CUBEPROJ_NONE engine_defaults) boxed_update"

definition unboxed_update :: state where
  "unboxed_update = state_after (updateUniforms engine_constants example_scene unboxed_material)"



section \<open>Single-precision rounding, computed\<close>

text \<open>
  The binary exponent of a positive number from the bit length of an integer, which
  gives \<open>fround\<close> an equation that computes: \<open>fround (7 / 10)\<close> is 11744051 / 16777216 and
  \<open>fround 16777217\<close> is 16777216.
\<close>

lemma floor_log2_between:
  fixes x :: real
  assumes "2 powr of_int k \<le> x" and "x < 2 powr of_int (k + 1)"
  shows "\<lfloor>log 2 x\<rfloor> = k"
proof -
  have x: "0 < x"
    using assms(1) by (smt (verit) powr_gt_zero)
  have "of_int k \<le> log 2 x"
    using assms(1) x by (simp add: le_log_iff)
  moreover have "log 2 x < of_int k + 1"
    using assms(2) x by (simp add: log_less_iff add.commute)
  ultimately show ?thesis
    by (simp add: floor_eq_iff)
qed

lemma two_powr_int: "0 \<le> k \<Longrightarrow> (2::real) powr of_int k = 2 ^ nat k"
  using powr_realpow[of 2 "nat k"] by simp

lemma floor_log2_ge1:
  fixes x :: real
  assumes "1 \<le> x"
  shows "\<lfloor>log 2 x\<rfloor> = bitlen \<lfloor>x\<rfloor> - 1"
proof -
  define n where "n = \<lfloor>x\<rfloor>"
  have n: "0 < n"
    using assms by (simp add: n_def)
  have b: "1 \<le> bitlen n"
    using n by (auto simp: bitlen_alt_def)
  have bd: "2 ^ nat (bitlen n - 1) \<le> n" "n < 2 ^ nat (bitlen n)"
    using bitlen_bounds[OF n] by simp_all
  have lo: "(2::real) powr of_int (bitlen n - 1) \<le> x"
  proof -
    have "(2::real) powr of_int (bitlen n - 1) = 2 ^ nat (bitlen n - 1)"
      using b by (intro two_powr_int) simp
    also have "\<dots> = of_int (2 ^ nat (bitlen n - 1))"
      by simp
    also have "\<dots> \<le> of_int n"
      using bd(1) by (simp only: of_int_le_iff)
    also have "\<dots> \<le> x"
      by (simp add: n_def)
    finally show ?thesis .
  qed
  have hi: "x < (2::real) powr of_int (bitlen n - 1 + 1)"
  proof -
    have "n + 1 \<le> 2 ^ nat (bitlen n)"
      using bd(2) by simp
    then have "of_int (n + 1) \<le> (of_int (2 ^ nat (bitlen n)) :: real)"
      by (simp only: of_int_le_iff)
    moreover have "x < of_int (n + 1)"
      by (simp add: n_def)
    ultimately have "x < 2 ^ nat (bitlen n)"
      by simp
    also have "\<dots> = (2::real) powr of_int (bitlen n - 1 + 1)"
      using b two_powr_int[of "bitlen n"] by simp
    finally show ?thesis .
  qed
  show ?thesis
    using floor_log2_between[OF lo hi] by (simp add: n_def)
qed

lemma floor_log2_lt1:
  fixes x :: real
  assumes "0 < x" and "x < 1"
  shows "\<lfloor>log 2 x\<rfloor> = - int (ceillog2 (nat \<lceil>1 / x\<rceil>))"
proof -
  define m where "m = nat \<lceil>1 / x\<rceil>"
  define c where "c = ceillog2 m"
  have y: "1 < 1 / x"
    using assms by simp
  then have m2: "2 \<le> m"
    unfolding m_def by linarith
  have my: "1 / x \<le> real m" "real m - 1 < 1 / x"
    unfolding m_def using y by linarith+
  have up: "m \<le> 2 ^ c"
    unfolding c_def by (rule le_two_power_ceillog2)
  have c1: "1 \<le> c"
  proof (rule ccontr)
    assume "\<not> 1 \<le> c"
    then have "c = 0" by simp
    then show False using up m2 by simp
  qed
  have "\<not> c \<le> c - 1"
    using c1 by simp
  then have "\<not> m \<le> 2 ^ (c - 1)"
    using ceillog2_le_iff[of m "c - 1"] m2 by (simp add: c_def)
  then have low: "2 ^ (c - 1) < m"
    by simp
  have p: "(0::real) < 2 ^ c" "(0::real) < 2 ^ (c - 1)"
    by simp_all
  have lo: "(2::real) powr of_int (- int c) \<le> x"
  proof -
    have "real m \<le> 2 ^ c"
      using up by simp
    then have "1 / x \<le> 2 ^ c"
      using my(1) by (rule order_trans[rotated])
    then have "1 \<le> 2 ^ c * x"
      using assms(1) by (simp only: pos_divide_le_eq)
    then have "1 / 2 ^ c \<le> x"
      using p(1) by (simp only: pos_divide_le_eq mult.commute)
    moreover have "(2::real) powr of_int (- int c) = 1 / 2 ^ c"
      by (simp add: powr_minus_divide powr_realpow)
    ultimately show ?thesis by (simp only:)
  qed
  have hi: "x < (2::real) powr of_int (- int c + 1)"
  proof -
    have "real (2 ^ (c - 1)) < real m"
      using low by (simp only: of_nat_less_iff)
    then have "real (2 ^ (c - 1)) + 1 \<le> real m"
      using low by linarith
    then have "real (2 ^ (c - 1)) < 1 / x"
      using my(2) by linarith
    then have "(2::real) ^ (c - 1) < 1 / x"
      by (simp only: of_nat_power of_nat_numeral)
    then have "2 ^ (c - 1) * x < 1"
      using assms(1) by (simp only: pos_less_divide_eq)
    then have "x < 1 / 2 ^ (c - 1)"
      using p(2) by (simp only: pos_less_divide_eq mult.commute)
    moreover have "(2::real) powr of_int (- int c + 1) = 1 / 2 ^ (c - 1)"
    proof -
      have "- int c + 1 = - int (c - 1)"
        using c1 by simp
      then have "(2::real) powr of_int (- int c + 1) = 2 powr (- real (c - 1))"
        by (simp only: of_int_minus of_int_of_nat_eq)
      then show ?thesis
        by (simp only: powr_minus_divide powr_realpow zero_less_numeral)
    qed
    ultimately show ?thesis by (simp only:)
  qed
  show ?thesis
    using floor_log2_between[OF lo hi] by (simp only: c_def m_def)
qed


lemma floor_log2_code:
  fixes x :: real
  assumes "0 < x"
  shows "\<lfloor>log 2 x\<rfloor> =
           (if 1 \<le> x then bitlen \<lfloor>x\<rfloor> - 1 else - int (ceillog2 (nat \<lceil>1 / x\<rceil>)))"
  using assms floor_log2_ge1[of x] floor_log2_lt1[of x] by (cases "1 \<le> x") simp_all

lemma two_powr_int_code:
  "(2::real) powr (of_int e - 23) = (if 23 \<le> e then 2 ^ nat (e - 23) else 1 / 2 ^ nat (23 - e))"
proof (cases "23 \<le> e")
  case True
  then show ?thesis
    using two_powr_int[of "e - 23"] by simp
next
  case False
  then have "(2::real) powr (of_int e - 23) = 2 powr (- of_int (23 - e))"
    by simp
  also have "\<dots> = 1 / 2 powr of_int (23 - e)"
    by (simp only: powr_minus_divide)
  also have "\<dots> = 1 / 2 ^ nat (23 - e)"
    using False two_powr_int[of "23 - e"] by simp
  finally show ?thesis
    using False by simp
qed

lemma fround_code [code]:
  "fround x =
     (if x = 0 then 0
      else (let e = max (if 1 \<le> \<bar>x\<bar> then bitlen \<lfloor>\<bar>x\<bar>\<rfloor> - 1
                         else - int (ceillog2 (nat \<lceil>1 / \<bar>x\<bar>\<rceil>))) (- 126);
                ulp = (if 23 \<le> e then 2 ^ nat (e - 23) else 1 / 2 ^ nat (23 - e))
            in of_int (round_half_even (x / ulp)) * ulp))"
proof (cases "x = 0")
  case True
  then show ?thesis
    by (simp add: fround_def)
next
  case False
  then have "0 < \<bar>x\<bar>"
    by simp
  then show ?thesis
    using False unfolding fround_def Let_def
    by (simp only: floor_log2_code[of "\<bar>x\<bar>"] two_powr_int_code if_False)
qed

section \<open>Light collection: the containers stay in lockstep\<close>

text \<open>
  The lockstep invariant of the three containers: the set holds the array's elements in
  the array's order, no light occurs twice, and the index array is the array mapped
  through \<^verbatim>\<open>allLights.indexOf\<close>.
\<close>

definition lockstep :: "light list \<Rightarrow> renderAction \<Rightarrow> bool" where
  "lockstep allLights ra =
     (directionalLightsSet ra = directionalLights ra \<and>
      distinct (directionalLights ra) \<and>
      directionalLightsIndices ra = map (indexOf allLights) (directionalLights ra))"

lemma lockstep_collect_one:
  "lockstep allLights ra \<Longrightarrow> lockstep allLights (collect_one li cl allLights ra)"
  by (simp add: lockstep_def collect_one_def set_add_def set_has_def)

lemma lockstep_collect_layers:
  "lockstep allLights ra \<Longrightarrow> lockstep allLights (collect_layers li cls allLights ra)"
  by (induction cls arbitrary: ra) (simp_all add: lockstep_collect_one)

lemma lockstep_collect_lights:
  "lockstep allLights ra \<Longrightarrow> lockstep allLights (collect_lights lis cls allLights ra)"
  by (induction lis arbitrary: ra) (simp_all add: lockstep_collect_layers)

lemma lockstep_collectDirectionalLights:
  "lockstep allLights (collectDirectionalLights cls lis allLights ra)"
  unfolding collectDirectionalLights_def
  by (rule lockstep_collect_lights) (simp add: lockstep_def set_clear_def)

lemma count_list_distinct:
  "distinct xs \<Longrightarrow> count_list xs x = (if x \<in> set xs then 1 else 0)"
  by (induction xs) auto

text \<open>
  C3. After \<^verbatim>\<open>collectDirectionalLights\<close>, for every input: a light is in
  \<open>directionalLightsSet\<close> exactly when it occurs in \<open>directionalLights\<close>, where it
  then occurs exactly once; at every position \<open>k\<close>, \<open>directionalLightsIndices[k]\<close> is
  \<^verbatim>\<open>allLights.indexOf(directionalLights[k])\<close>; and the set and the two arrays have
  the same size.
\<close>

theorem collectDirectionalLights_consistent:
  fixes L :: light and cameraLayers :: "layer list" and dirLights allLights :: "light list"
    and ra :: renderAction
  defines "ra' \<equiv> collectDirectionalLights cameraLayers dirLights allLights ra"
  shows "(set_has (directionalLightsSet ra') L \<longleftrightarrow> L \<in> set (directionalLights ra'))
       \<and> (set_has (directionalLightsSet ra') L \<longleftrightarrow> count_list (directionalLights ra') L = 1)
       \<and> (\<forall>k < length (directionalLights ra').
             directionalLightsIndices ra' ! k = indexOf allLights (directionalLights ra' ! k))
       \<and> set_size (directionalLightsSet ra') = length (directionalLights ra')
       \<and> length (directionalLightsIndices ra') = length (directionalLights ra')"
proof -
  have inv: "lockstep allLights ra'"
    unfolding ra'_def by (rule lockstep_collectDirectionalLights)
  then have eq: "directionalLightsSet ra' = directionalLights ra'"
    and d: "distinct (directionalLights ra')"
    and ix: "directionalLightsIndices ra' = map (indexOf allLights) (directionalLights ra')"
    by (simp_all add: lockstep_def)
  show ?thesis
    using d by (simp add: eq ix set_has_def set_size_def count_list_distinct)
qed

lemma example_lights:
  "lightA \<noteq> lightB" "lightA \<noteq> lightC" "lightB \<noteq> lightC"
  "lightB \<noteq> lightA" "lightC \<noteq> lightA" "lightC \<noteq> lightB"
  "castShadows lightA" "\<not> castShadows lightB" "castShadows lightC"
  by (simp_all add: lightA_def lightB_def lightC_def)

lemma example_collect:
  "collectDirectionalLights
      [\<lparr>splitLights_directional = [lightA, lightC]\<rparr>,
       \<lparr>splitLights_directional = [lightC, lightA, lightB]\<rparr>]
      [lightA, lightB, lightC, lightA] [lightB, lightA]
      \<lparr>directionalLightsSet = [lightB], directionalLights = [lightB, lightB],
       directionalLightsIndices = [7]\<rparr>
   = \<lparr>directionalLightsSet = [lightA, lightC], directionalLights = [lightA, lightC],
      directionalLightsIndices = [1, -1]\<rparr>"
  by (simp add: collectDirectionalLights_def collect_one_def set_add_def set_has_def
      set_clear_def example_lights)

text \<open>
  The theorem at a concrete input: two layers, the light list
  \<open>[lightA, lightB, lightC, lightA]\<close> (\<open>lightB\<close> casts no shadow, \<open>lightA\<close> comes twice),
  a global light list that lacks \<open>lightC\<close>, and a render action with stale contents.
\<close>

theorem collectDirectionalLights_consistent_witness:
  "(let ra = collectDirectionalLights
      [\<lparr>splitLights_directional = [lightA, lightC]\<rparr>,
       \<lparr>splitLights_directional = [lightC, lightA, lightB]\<rparr>]
      [lightA, lightB, lightC, lightA] [lightB, lightA]
      \<lparr>directionalLightsSet = [lightB], directionalLights = [lightB, lightB],
       directionalLightsIndices = [7]\<rparr>
    in directionalLights ra = [lightA, lightC]
       \<and> directionalLightsIndices ra = [1, -1]
       \<and> set_has (directionalLightsSet ra) lightC
       \<and> count_list (directionalLights ra) lightC = 1
       \<and> directionalLightsIndices ra ! 1 = indexOf [lightB, lightA] (directionalLights ra ! 1)
       \<and> set_size (directionalLightsSet ra) = 2
       \<and> length (directionalLightsIndices ra) = 2)"
proof -
  note t = collectDirectionalLights_consistent
    [of "[\<lparr>splitLights_directional = [lightA, lightC]\<rparr>,
          \<lparr>splitLights_directional = [lightC, lightA, lightB]\<rparr>]"
        "[lightA, lightB, lightC, lightA]" "[lightB, lightA]"
        "\<lparr>directionalLightsSet = [lightB], directionalLights = [lightB, lightB],
          directionalLightsIndices = [7]\<rparr>"
        lightC, unfolded example_collect]
  from t have "set_has [lightA, lightC] lightC" "count_list [lightA, lightC] lightC = 1"
    by (simp_all add: set_has_def example_lights)
  then show ?thesis
    by (simp add: example_collect Let_def set_size_def example_lights)
qed

section \<open>Dirty tracking of the property accessors\<close>

lemma float_not_map: "name \<in> set float_props \<Longrightarrow> name \<notin> set map_props"
  by (auto simp: float_props_def map_props_def matTex2D_def tex2d_defs_def)

lemma float_is_value: "name \<in> set float_props \<Longrightarrow> name \<in> set value_props"
  by (simp add: value_props_def)

lemma assign_float:
  "name \<in> set float_props \<Longrightarrow> assign name v s = defineValueProp_setter dirty_float name v s"
  by (simp add: assign_def float_is_value dirtyShaderFunc_of_def float_not_map)

text \<open>The default values are listed for exactly the value properties, in their order.\<close>

lemma default_values_names: "map fst (default_values D) = value_props"
  by (simp add: default_values_def value_props_def float_defaults_def float_props_def
      object_props_def flag_defaults_def flag_props_def tex2d_defs_def tex2d_defaults_def
      tex2d_value_props_def Let_def)

text \<open>Membership of a value in \<open>{0, 1}\<close>, as \<^verbatim>\<open>v === 0 || v === 1\<close> decides it.\<close>

definition in01 :: "jsval \<Rightarrow> bool" where
  "in01 v = (v = JNum 0 \<or> v = JNum 1)"

text \<open>
  C9. For a property defined by \<^verbatim>\<open>_defineFloat\<close>, setting it to a value different from
  the old one leaves the flag set if it was set, and otherwise sets it exactly when one
  of the old and the new value, and not the other, is in \<open>{0, 1}\<close>; between two values
  outside \<open>{0, 1}\<close> the flag keeps its value.
\<close>

theorem defineFloat_dirty_iff:
  assumes "name \<in> set float_props" and "\<not> strict_eq (vals s name) v"
  shows "dirtyShader (assign name v s) = (dirtyShader s \<or> (in01 (vals s name) \<noteq> in01 v))
       \<and> (\<not> in01 (vals s name) \<and> \<not> in01 v \<longrightarrow> dirtyShader (assign name v s) = dirtyShader s)
       \<and> vals (assign name v s) name = v"
  using assms
  by (auto simp add: assign_float defineValueProp_setter_def dirty_float_def in01_def
      strict_eq_def Let_def)

lemma clean_material_vals:
  "vals clean_material ''opacity'' = JNum 1"
  "vals clean_material ''shininess'' = JNum 25"
  "vals clean_material ''metalness'' = JNum 1"
  "vals clean_material ''useFog'' = JBool True"
  "vals clean_material ''diffuseMap'' = JNull"
  "vals clean_material ''diffuseMapRotation'' = JNum 0"
  by code_simp+


lemma clean_material_fields:
  "\<not> dirtyShader clean_material"
  "params clean_material = 0"
  "activeParams clean_material = 1"
  "activeLightingParams clean_material = 2"
  "sets clean_material = (\<lambda>a. set_clear)"
  "onUpdateShader clean_material = None"
  by (simp_all add: clean_material_def new_StandardMaterial_def)

text \<open>
  The theorem at the material with a fetched shader: \<^verbatim>\<open>opacity\<close> from its default 1 to
  0.5 sets the flag, \<^verbatim>\<open>shininess\<close> from its default 25 to 30 does not.
\<close>

theorem defineFloat_dirty_iff_witness:
  "''opacity'' \<in> set float_props \<and> \<not> strict_eq (vals clean_material ''opacity'') (JNum 0.5)
   \<and> dirtyShader (assign ''opacity'' (JNum 0.5) clean_material)
   \<and> ''shininess'' \<in> set float_props \<and> \<not> strict_eq (vals clean_material ''shininess'') (JNum 30)
   \<and> \<not> dirtyShader (assign ''shininess'' (JNum 30) clean_material)"
proof -
  have o: "''opacity'' \<in> set float_props" and sh: "''shininess'' \<in> set float_props"
    by (simp_all add: float_props_def)
  have no: "\<not> strict_eq (vals clean_material ''opacity'') (JNum 0.5)"
    and ns: "\<not> strict_eq (vals clean_material ''shininess'') (JNum 30)"
    by (simp_all add: clean_material_vals strict_eq_def)
  show ?thesis
    using defineFloat_dirty_iff[OF o no] defineFloat_dirty_iff[OF sh ns] o sh no ns
    by (simp add: clean_material_vals clean_material_fields in01_def)
qed


section \<open>What the parameter statements change\<close>

text \<open>
  \<open>frame s s'\<close>: from \<open>s\<close> to \<open>s'\<close> no property has changed, the three \<^verbatim>\<open>Set\<close>
  references are the same, every \<^verbatim>\<open>Set\<close> object but the module's \<^verbatim>\<open>_params\<close> has its
  contents, and the flag has not been cleared.
\<close>

definition frame :: "state \<Rightarrow> state \<Rightarrow> bool" where
  "frame s s' =
     (vals s' = vals s \<and> colors s' = colors s \<and> vec2s s' = vec2s s \<and>
      prefilteredCubemaps s' = prefilteredCubemaps s \<and> onUpdateShader s' = onUpdateShader s \<and>
      activeParams s' = activeParams s \<and> activeLightingParams s' = activeLightingParams s \<and>
      params s' = params s \<and> (\<forall>a. a \<noteq> params s \<longrightarrow> sets s' a = sets s a) \<and>
      (dirtyShader s \<longrightarrow> dirtyShader s'))"

definition framed :: "(state \<Rightarrow> state result) \<Rightarrow> bool" where
  "framed f = (\<forall>s. frame s (state_after (f s)))"

lemma frame_refl: "frame s s"
  by (simp add: frame_def)

lemma frame_trans: "frame s s' \<Longrightarrow> frame s' s'' \<Longrightarrow> frame s s''"
  by (simp add: frame_def)

lemma framedD: "framed f \<Longrightarrow> frame s (state_after (f s))"
  by (simp add: framed_def)

lemma framed_seq_Nil: "framed (seq [])"
  by (simp add: framed_def state_after_def frame_refl)

lemma framed_seq_Cons:
  assumes "framed f" and "framed (seq fs)"
  shows "framed (seq (f # fs))"
  unfolding framed_def
proof
  fix s
  show "frame s (state_after (seq (f # fs) s))"
  proof (cases "f s")
    case (Inl e)
    then show ?thesis
      using framedD[OF assms(1), of s] by (simp add: state_after_def)
  next
    case (Inr s')
    then have "frame s s'"
      using framedD[OF assms(1), of s] by (simp add: state_after_def)
    moreover have "frame s' (state_after (seq fs s'))"
      by (rule framedD[OF assms(2)])
    ultimately show ?thesis
      using Inr by (simp add: frame_trans)
  qed
qed

lemma framed_seq_map: "(\<And>p. framed (h p)) \<Longrightarrow> framed (seq (map h ps))"
  by (induction ps) (simp_all add: framed_seq_Nil framed_seq_Cons)

lemma framed_if_then: "framed f \<Longrightarrow> framed (if_then c f)"
  by (simp add: framed_def if_then_def state_after_def frame_refl)

lemma framed_if_else: "framed f \<Longrightarrow> framed h \<Longrightarrow> framed (if_else c f h)"
  by (simp add: framed_def if_else_def)

lemma frame_p_setParameter: "frame s (p_setParameter k v s)"
  by (simp add: frame_def p_setParameter_def setParameter_def split: pkey.splits)

lemma frame_p_setParameters: "frame s (p_setParameters slot s)"
  unfolding p_setParameters_def
  by (rule frame_trans[OF frame_p_setParameter frame_p_setParameter])

lemma framed_set_value: "framed (set_value pname e)"
  by (simp add: framed_def set_value_def state_after_def frame_p_setParameter)

text \<open>What a uniform function leaves of the state, whether it returns or throws.\<close>

definition uniform_state :: "(jsval \<times> state) result \<Rightarrow> state" where
  "uniform_state res = (case res of Inl (e, s) \<Rightarrow> s | Inr (v, s) \<Rightarrow> s)"

lemma frame_uniform_color: "frame s (uniform_state (uniform_color name scn s))"
  by (simp add: uniform_color_def uniform_state_def color_getter_def frame_def Let_def
      split: prod.splits option.splits)

lemma sets_uniform_color: "sets (uniform_state (uniform_color name scn s)) = sets s"
  by (simp add: uniform_color_def uniform_state_def color_getter_def Let_def
      split: prod.splits option.splits)

lemma frame_uniform_mapTransform: "frame s (snd (uniform_mapTransform name s))"
  by (simp add: uniform_mapTransform_def frame_def Let_def split: prod.splits)

lemma sets_uniform_mapTransform: "sets (snd (uniform_mapTransform name s)) = sets s"
  by (simp add: uniform_mapTransform_def Let_def split: prod.splits)

lemma frame_uniform_box: "frame s (uniform_state (uniform_cubeMapProjectionBox s))"
  by (simp add: uniform_cubeMapProjectionBox_def uniform_state_def frame_def Let_def
      split: prod.splits jsval.splits)

lemma sets_uniform_box: "sets (uniform_state (uniform_cubeMapProjectionBox s)) = sets s"
  by (simp add: uniform_cubeMapProjectionBox_def uniform_state_def Let_def
      split: prod.splits jsval.splits)

lemma frame_getUniform: "frame s (uniform_state (getUniform C name scn s))"
  unfolding getUniform_def
  using frame_uniform_color[of s name scn] frame_uniform_box[of s]
  by (simp add: uniform_state_def frame_refl frame_uniform_mapTransform split_def
      split: option.splits)

lemma sets_getUniform: "sets (uniform_state (getUniform C name scn s)) = sets s"
  unfolding getUniform_def
  using sets_uniform_color[of name scn s] sets_uniform_box[of s]
  by (simp add: uniform_state_def sets_uniform_mapTransform split_def split: option.splits)

lemma framed_set_uniform: "framed (set_uniform C sc pname uname)"
  unfolding framed_def
proof
  fix s
  have f: "frame s (uniform_state (getUniform C uname (Some sc) s))"
    by (rule frame_getUniform)
  show "frame s (state_after (set_uniform C sc pname uname s))"
  proof (cases "getUniform C uname (Some sc) s")
    case (Inl e)
    then show ?thesis
      using f by (simp add: set_uniform_def state_after_def uniform_state_def)
  next
    case (Inr vs)
    then show ?thesis
      using f frame_trans[OF _ frame_p_setParameter]
      by (cases vs) (simp add: set_uniform_def state_after_def uniform_state_def)
  qed
qed

lemma framed_set_box_uniform: "framed (set_box_uniform C sc)"
  unfolding framed_def
proof
  fix s
  have f: "frame s (uniform_state (getUniform C ''cubeMapProjectionBox'' (Some sc) s))"
    by (rule frame_getUniform)
  show "frame s (state_after (set_box_uniform C sc s))"
  proof (cases "getUniform C ''cubeMapProjectionBox'' (Some sc) s")
    case (Inl e)
    then show ?thesis
      using f by (simp add: set_box_uniform_def state_after_def uniform_state_def)
  next
    case (Inr vs)
    then show ?thesis
      using f frame_trans[OF _ frame_p_setParameter]
      by (cases vs) (simp add: set_box_uniform_def state_after_def uniform_state_def)
  qed
qed

lemma framed_p_updateMap: "framed (p_updateMap C p)"
  unfolding framed_def
proof
  fix s
  let ?s1 = "p_setParameter (PName (''texture_'' @ p @ ''Map'')) (vals s (p @ ''Map'')) s"
  have f1: "frame s ?s1"
    by (rule frame_p_setParameter)
  have f2: "frame ?s1 (uniform_state (getUniform C (p @ ''Map'' @ ''Transform'') None ?s1))"
    by (rule frame_getUniform)
  show "frame s (state_after (p_updateMap C p s))"
  proof (cases "truthy (vals s (p @ ''Map''))")
    case False
    then show ?thesis
      by (simp add: p_updateMap_def state_after_def frame_refl)
  next
    case True
    show ?thesis
    proof (cases "getUniform C (p @ ''Map'' @ ''Transform'') None ?s1")
      case (Inl e)
      then show ?thesis
        using True frame_trans[OF f1 f2]
        by (simp add: p_updateMap_def state_after_def uniform_state_def Let_def)
    next
      case (Inr vs)
      obtain v s2 where vs: "vs = (v, s2)"
        by (cases vs)
      have "frame s s2"
        using frame_trans[OF f1 f2] Inr vs by (simp add: uniform_state_def)
      then have "frame s (p_setParameters (p @ ''Map'' @ ''Transform'') s2)"
        by (rule frame_trans[OF _ frame_p_setParameters])
      then show ?thesis
        using True Inr vs \<open>frame s s2\<close>
        by (simp add: p_updateMap_def state_after_def Let_def)
    qed
  qed
qed

lemmas framed_intros =
  framed_seq_Nil framed_seq_Cons framed_seq_map framed_if_then framed_if_else
  framed_set_value framed_set_uniform framed_set_box_uniform framed_p_updateMap

lemma framed_updateUniforms_params: "framed (updateUniforms_params C sc)"
  unfolding updateUniforms_params_def by (intro framed_intros)

lemma framed_updateEnvUniforms_params: "framed (updateEnvUniforms_params C sc)"
  unfolding updateEnvUniforms_params_def by (intro framed_intros)


section \<open>Two runs of the parameter statements from states with the same properties\<close>































definition uniform_value :: "(jsval \<times> state) result \<Rightarrow> jsval" where
  "uniform_value res = (case res of Inl e \<Rightarrow> JUndefined | Inr (v, s) \<Rightarrow> v)"







section \<open>updateUniforms twice\<close>

lemma getUniform_color:
  "name \<in> set color_props \<Longrightarrow> getUniform C name scn s = uniform_color name scn s"
  by (simp add: getUniform_def)

lemma uniform_color_scene:
  "\<exists>s'. uniform_color name (Some sc) s = Inr (JArray name, s') \<and> dirtyShader s'"
  by (simp add: uniform_color_def color_getter_def Let_def split: prod.splits)

lemma dirtyShader_p_setParameter: "dirtyShader (p_setParameter k v s) = dirtyShader s"
  by (simp add: p_setParameter_def setParameter_def split: pkey.splits)

lemma set_uniform_color_dirty:
  assumes "uname \<in> set color_props"
  shows "\<exists>s'. set_uniform C sc pname uname s = Inr s' \<and> dirtyShader s'"
proof -
  obtain s1 where "uniform_color uname (Some sc) s = Inr (JArray uname, s1)" and "dirtyShader s1"
    using uniform_color_scene by blast
  then show ?thesis
    using assms by (simp add: set_uniform_def getUniform_color dirtyShader_p_setParameter)
qed

lemma seq_first_dirty:
  assumes f: "\<exists>s'. f s = Inr s' \<and> dirtyShader s'" and fs: "framed (seq fs)"
  shows "dirtyShader (state_after (seq (f # fs) s))"
proof -
  obtain s' where s': "f s = Inr s'" and d: "dirtyShader s'"
    using f by blast
  have "frame s' (state_after (seq fs s'))"
    by (rule framedD[OF fs])
  then show ?thesis
    using s' d by (simp add: frame_def)
qed

text \<open>The first statement of \<^verbatim>\<open>updateUniforms\<close> reads the ambient colour through its
  getter: whatever follows, the flag is set when the statements are left.\<close>

lemma dirtyShader_updateUniforms_params:
  "dirtyShader (state_after (updateUniforms_params C sc s))"
  unfolding updateUniforms_params_def
  by (rule seq_first_dirty)
     (simp add: set_uniform_color_dirty color_props_def, intro framed_intros)

lemma p_processParameters_fields:
  "vals (p_processParameters f s) = vals s"
  "colors (p_processParameters f s) = colors s"
  "vec2s (p_processParameters f s) = vec2s s"
  "dirtyShader (p_processParameters f s) = dirtyShader s"
  "onUpdateShader (p_processParameters f s) = onUpdateShader s"
  "prefilteredCubemaps (p_processParameters f s) = prefilteredCubemaps s"
  "get_field f (p_processParameters f s) = params s"
  "params (p_processParameters f s) = get_field f s"
  "sets (p_processParameters f s) = (sets s)(get_field f s := set_clear)"
  by (simp_all add: p_processParameters_def Let_def get_field_def set_field_def
      split: params_field.splits)

text \<open>The end of \<^verbatim>\<open>updateUniforms\<close>, after the parameter statements.\<close>

definition updateUniforms_end :: "state \<Rightarrow> state" where
  "updateUniforms_end s1 =
     (let s2 = p_processParameters ActiveParams s1
      in if dirtyShader s2 then clearVariants s2 else s2)"

lemma updateUniforms_split:
  "updateUniforms C sc s =
     (case updateUniforms_params C sc s of Inl e \<Rightarrow> Inl e | Inr s1 \<Rightarrow> Inr (updateUniforms_end s1))"
  by (simp add: updateUniforms_def updateUniforms_end_def Let_def split: sum.splits)

lemma updateUniforms_end_fields:
  "vals (updateUniforms_end s) = vals s"
  "colors (updateUniforms_end s) = colors s"
  "vec2s (updateUniforms_end s) = vec2s s"
  "dirtyShader (updateUniforms_end s) = dirtyShader s"
  "activeParams (updateUniforms_end s) = params s"
  "params (updateUniforms_end s) = activeParams s"
  "sets (updateUniforms_end s) = (sets s)(activeParams s := set_clear)"
  using p_processParameters_fields[of ActiveParams s]
  by (simp_all add: updateUniforms_end_def Let_def clearVariants_def get_field_def)





section \<open>The flag is set on reads of a colour\<close>

text \<open>
  C7. For every colour property (\<^verbatim>\<open>ambient\<close>, \<^verbatim>\<open>diffuse\<close>, \<^verbatim>\<open>specular\<close>, \<^verbatim>\<open>emissive\<close>,
  \<^verbatim>\<open>sheen\<close>, \<^verbatim>\<open>attenuation\<close>), reading the property through its getter returns the
  stored colour and leaves the flag set, whether the colour returned is then changed in
  place or not.
\<close>

theorem color_getter_sets_dirtyShader:
  assumes "name \<in> set color_props"
  shows "fst (color_getter name s) = colors s name
       \<and> dirtyShader (snd (color_getter name s))
       \<and> dirtyShader (read_prop name s)
       \<and> colors (read_prop name s) = colors s
       \<and> dirtyShader (mutate_color name v s)"
  using assms by (simp add: color_getter_def read_prop_def mutate_color_def Let_def)

text \<open>The theorem at the ambient colour of the material with a fetched shader.\<close>

theorem color_getter_sets_dirtyShader_witness:
  "''ambient'' \<in> set color_props \<and> \<not> dirtyShader clean_material
   \<and> dirtyShader (read_prop ''ambient'' clean_material)
   \<and> dirtyShader (mutate_color ''ambient'' \<lparr>col_r = 0.5, col_g = 0.7, col_b = 0.7, col_a = 1\<rparr>
         clean_material)"
proof -
  have m: "''ambient'' \<in> set color_props"
    by (simp add: color_props_def)
  show ?thesis
    using color_getter_sets_dirtyShader[OF m, of clean_material] m
    by (simp add: clean_material_fields)
qed

section \<open>Setting a value property, and fetching a shader variant\<close>

lemma getShaderVariant_clears:
  assumes "fst (getShaderVariant X C sc objDefs staticLightList pass sortedLights
                  viewUniformFormat viewBindGroupFormat s w) = Inr sh"
  shows "\<not> dirtyShader (fst (snd (getShaderVariant X C sc objDefs staticLightList pass
                  sortedLights viewUniformFormat viewBindGroupFormat s w)))"
proof (cases "updateEnvUniforms C sc s")
  case (Inl es)
  then show ?thesis
    using assms by (cases es) (simp add: getShaderVariant_def)
next
  case (Inr s0)
  define minimalOptions where
    "minimalOptions = (strict_eq pass (SHADER_DEPTH C) \<or> strict_eq pass (SHADER_PICK C) \<or> isShadow X pass)"
  define opts where "opts = (if minimalOptions then optionsContextMin X else optionsContext X)"
  define bld where
    "bld = (if minimalOptions then
              updateMinRef X opts sc s0 objDefs staticLightList pass sortedLights w
            else updateRef X opts sc s0 objDefs staticLightList pass sortedLights w)"
  obtain built s1 w1 where bld: "bld = (built, s1, w1)"
    by (cases bld)
  have g1: "getShaderVariant X C sc objDefs staticLightList pass sortedLights viewUniformFormat
              viewBindGroupFormat s w =
            (case built of
               Inl e \<Rightarrow> (Inl e, s1, w1)
             | Inr options1 \<Rightarrow>
                 (let (called, s2, w2) =
                        (case onUpdateShader s1 of
                           Some f \<Rightarrow> callback X f options1 s1 w1
                         | None \<Rightarrow> (Inr options1, s1, w1))
                  in case called of
                       Inl e \<Rightarrow> (Inl e, s2, w2)
                     | Inr options2 \<Rightarrow>
                         (let processingOptions = (viewUniformFormat, viewBindGroupFormat);
                              w3 = libraryRegister X ''standard'' w2;
                              (shader, w4) = getProgram X ''standard'' options2 processingOptions w3
                          in case shader of
                               Inl e \<Rightarrow> (Inl e, s2, w4)
                             | Inr sh \<Rightarrow> (Inr sh, s2\<lparr> dirtyShader := False \<rparr>, w4))))"
    using Inr bld
    unfolding getShaderVariant_def bld_def opts_def minimalOptions_def
    by (simp add: Let_def)
  show ?thesis
  proof (cases built)
    case (Inl e)
    then show ?thesis
      using assms g1 by simp
  next
    case built: (Inr options1)
    define cl where
      "cl = (case onUpdateShader s1 of
               Some f \<Rightarrow> callback X f options1 s1 w1
             | None \<Rightarrow> (Inr options1, s1, w1))"
    obtain called s2 w2 where cl: "cl = (called, s2, w2)"
      by (cases cl)
    show ?thesis
    proof (cases called)
      case (Inl e)
      then show ?thesis
        using assms g1 built cl unfolding cl_def by simp
    next
      case called: (Inr options2)
      obtain shader w4
        where gp: "getProgram X ''standard'' options2 (viewUniformFormat, viewBindGroupFormat)
                     (libraryRegister X ''standard'' w2) = (shader, w4)"
        by (cases "getProgram X ''standard'' options2 (viewUniformFormat, viewBindGroupFormat)
                     (libraryRegister X ''standard'' w2)")
      show ?thesis
        using assms g1 built cl called gp unfolding cl_def
        by (cases shader) (simp_all add: Let_def)
    qed
  qed
qed

text \<open>
  C2. For the setter \<^verbatim>\<open>defineValueProp\<close> builds, with any dirty predicate: setting the
  property to a value strictly equal to its current one changes nothing, the flag
  included; setting it to a value that is not strictly equal and on which the predicate
  holds leaves the flag set. And when \<^verbatim>\<open>getShaderVariant\<close> returns a variant, the flag
  is false.
\<close>

theorem dirty_tracking:
  "(strict_eq (vals s name) v \<longrightarrow> defineValueProp_setter dirtyShaderFunc name v s = s)
   \<and> (\<not> strict_eq (vals s name) v \<and> dirtyShaderFunc (vals s name) v \<longrightarrow>
        dirtyShader (defineValueProp_setter dirtyShaderFunc name v s))
   \<and> (fst (getShaderVariant X C sc objDefs staticLightList pass sortedLights
              viewUniformFormat viewBindGroupFormat s w) = Inr sh \<longrightarrow>
        \<not> dirtyShader (fst (snd (getShaderVariant X C sc objDefs staticLightList pass
              sortedLights viewUniformFormat viewBindGroupFormat s w))))"
  using getShaderVariant_clears[of X C sc objDefs staticLightList pass sortedLights
      viewUniformFormat viewBindGroupFormat s w sh]
  by (simp add: defineValueProp_setter_def Let_def)


section \<open>The environment update returns\<close>

definition returns :: "(state \<Rightarrow> state result) \<Rightarrow> bool" where
  "returns f = (\<forall>s. \<not> isl (f s))"

lemma returns_seq_Nil: "returns (seq [])"
  by (simp add: returns_def)

lemma returns_seq_Cons: "returns f \<Longrightarrow> returns (seq fs) \<Longrightarrow> returns (seq (f # fs))"
  unfolding returns_def
proof
  fix s
  assume f: "\<forall>s. \<not> isl (f s)" and fs: "\<forall>s. \<not> isl (seq fs s)"
  obtain s' where "f s = Inr s'"
    using f by (cases "f s") (auto simp: isl_def)
  then show "\<not> isl (seq (f # fs) s)"
    using fs by simp
qed

lemma returns_if_then: "returns f \<Longrightarrow> returns (if_then c f)"
  by (simp add: returns_def if_then_def)

lemma returns_if_else: "returns f \<Longrightarrow> returns h \<Longrightarrow> returns (if_else c f h)"
  by (simp add: returns_def if_else_def)

lemma returns_set_value: "returns (set_value pname e)"
  by (simp add: returns_def set_value_def)

lemmas returns_intros =
  returns_seq_Nil returns_seq_Cons returns_if_then returns_if_else returns_set_value

lemma returns_updateEnvUniforms_params: "returns (updateEnvUniforms_params C sc)"
  unfolding updateEnvUniforms_params_def by (intro returns_intros)

lemma updateEnvUniforms_returns:
  obtains s0 where "updateEnvUniforms C sc s = Inr s0"
    and "onUpdateShader s0 = onUpdateShader s"
    and "vals s0 = vals s" and "colors s0 = colors s" and "vec2s s0 = vec2s s"
    and "dirtyShader s0 = dirtyShader s \<or> dirtyShader s0"
proof -
  obtain s1 where s1: "updateEnvUniforms_params C sc s = Inr s1"
    using returns_updateEnvUniforms_params[of C sc]
    by (cases "updateEnvUniforms_params C sc s") (auto simp: returns_def isl_def)
  have f: "frame s s1"
    using framedD[OF framed_updateEnvUniforms_params, of s C sc] s1
    by (simp add: state_after_def)
  let ?s0 = "p_processParameters ActiveLightingParams s1"
  have "updateEnvUniforms C sc s = Inr ?s0"
    using s1 by (simp add: updateEnvUniforms_def)
  moreover have "onUpdateShader ?s0 = onUpdateShader s" "vals ?s0 = vals s"
    "colors ?s0 = colors s" "vec2s ?s0 = vec2s s"
    "dirtyShader ?s0 = dirtyShader s \<or> dirtyShader ?s0"
    using f by (auto simp: p_processParameters_fields frame_def)
  ultimately show ?thesis
    using that by blast
qed

section \<open>The callback of getShaderVariant\<close>

text \<open>
  C8. When the material holds a function in \<^verbatim>\<open>onUpdateShader\<close>, the calls
  \<^verbatim>\<open>getShaderVariant\<close> makes to its collaborators are, in this order and no others: the
  options builder (the minimal one for a depth, pick or shadow pass, the full one
  otherwise), the function, once, handed the options the builder left, the registration
  of the generator, and \<^verbatim>\<open>getProgram\<close> with the options the function returned; the
  shader \<^verbatim>\<open>getProgram\<close> returns is the result.
\<close>

theorem onUpdateShader_called_once_after_build:
  fixes shadow :: "jsval \<Rightarrow> bool" and oc ocMin :: options
    and build buildMin :: "options \<Rightarrow> scene \<Rightarrow> state \<Rightarrow> jsval \<Rightarrow> jsval \<Rightarrow> jsval \<Rightarrow> jsval \<Rightarrow> options"
    and hook :: "nat \<Rightarrow> options \<Rightarrow> options"
    and prog :: "string \<Rightarrow> options \<Rightarrow> jsval \<times> jsval \<Rightarrow> jsval"
  assumes set: "onUpdateShader s = Some f"
  shows "\<exists>s0 built.
           updateEnvUniforms C sc s = Inr s0
         \<and> built = (if strict_eq pass (SHADER_DEPTH C) \<or> strict_eq pass (SHADER_PICK C) \<or> shadow pass
                    then buildMin ocMin sc s0 objDefs staticLightList pass sortedLights
                    else build oc sc s0 objDefs staticLightList pass sortedLights)
         \<and> getShaderVariant (recording shadow oc ocMin build buildMin hook prog) C sc objDefs
               staticLightList pass sortedLights viewUniformFormat viewBindGroupFormat s w =
             (Inr (prog ''standard'' (hook f built) (viewUniformFormat, viewBindGroupFormat)),
              s0\<lparr> dirtyShader := False \<rparr>,
              w @ [Built (strict_eq pass (SHADER_DEPTH C) \<or> strict_eq pass (SHADER_PICK C) \<or>
                          shadow pass) built,
                   Called f built (hook f built),
                   Registered ''standard'',
                   Requested ''standard'' (hook f built) (viewUniformFormat, viewBindGroupFormat)])"
proof -
  obtain s0 where s0: "updateEnvUniforms C sc s = Inr s0" and h: "onUpdateShader s0 = onUpdateShader s"
    using updateEnvUniforms_returns[of C sc s] by blast
  show ?thesis
    using s0 h set
    by (simp add: getShaderVariant_def recording_def Let_def)
qed

text \<open>Without a function in \<^verbatim>\<open>onUpdateShader\<close> the options the builder left are handed to
  \<^verbatim>\<open>getProgram\<close>, and no function is called.\<close>

lemma getShaderVariant_without_callback:
  fixes shadow :: "jsval \<Rightarrow> bool" and oc ocMin :: options
    and build buildMin :: "options \<Rightarrow> scene \<Rightarrow> state \<Rightarrow> jsval \<Rightarrow> jsval \<Rightarrow> jsval \<Rightarrow> jsval \<Rightarrow> options"
    and hook :: "nat \<Rightarrow> options \<Rightarrow> options"
    and prog :: "string \<Rightarrow> options \<Rightarrow> jsval \<times> jsval \<Rightarrow> jsval"
  assumes unset: "onUpdateShader s = None"
  shows "\<exists>s0 built.
           updateEnvUniforms C sc s = Inr s0
         \<and> built = (if strict_eq pass (SHADER_DEPTH C) \<or> strict_eq pass (SHADER_PICK C) \<or> shadow pass
                    then buildMin ocMin sc s0 objDefs staticLightList pass sortedLights
                    else build oc sc s0 objDefs staticLightList pass sortedLights)
         \<and> getShaderVariant (recording shadow oc ocMin build buildMin hook prog) C sc objDefs
               staticLightList pass sortedLights viewUniformFormat viewBindGroupFormat s w =
             (Inr (prog ''standard'' built (viewUniformFormat, viewBindGroupFormat)),
              s0\<lparr> dirtyShader := False \<rparr>,
              w @ [Built (strict_eq pass (SHADER_DEPTH C) \<or> strict_eq pass (SHADER_PICK C) \<or>
                          shadow pass) built,
                   Registered ''standard'',
                   Requested ''standard'' built (viewUniformFormat, viewBindGroupFormat)])"
proof -
  obtain s0 where s0: "updateEnvUniforms C sc s = Inr s0" and h: "onUpdateShader s0 = onUpdateShader s"
    using updateEnvUniforms_returns[of C sc s] by blast
  show ?thesis
    using s0 h unset
    by (simp add: getShaderVariant_def recording_def Let_def)
qed


lemma engine_constants_fields:
  "SHADER_DEPTH engine_constants = JNum 2" "SHADER_PICK engine_constants = JNum 3"
  "CUBEPROJ_BOX engine_constants = JNum 1" "SPECULAR_PHONG engine_constants = JNum 0"
  by (simp_all add: engine_constants_def)

text \<open>
  The theorem at the material with a fetched shader, a function in \<^verbatim>\<open>onUpdateShader\<close>
  and a forward pass: the four calls, in their order.
\<close>

theorem onUpdateShader_called_once_after_build_witness:
  "onUpdateShader hooked_material = Some 7
   \<and> getShaderVariant example_externals engine_constants example_scene JNull JNull (JNum 0)
         JNull JNull JNull hooked_material [] =
       (Inr (JObj 42),
        state_after (updateEnvUniforms engine_constants example_scene hooked_material)
          \<lparr> dirtyShader := False \<rparr>,
        [Built False [''pass'' \<mapsto> JNum 0],
         Called 7 [''pass'' \<mapsto> JNum 0] [''pass'' \<mapsto> JNum 0, ''customised'' \<mapsto> JNum 7],
         Registered ''standard'',
         Requested ''standard'' [''pass'' \<mapsto> JNum 0, ''customised'' \<mapsto> JNum 7] (JNull, JNull)])"
proof -
  have h: "onUpdateShader hooked_material = Some 7"
    by (simp add: hooked_material_def)
  from onUpdateShader_called_once_after_build[OF h, where C = engine_constants
      and sc = example_scene and pass = "JNum 0" and shadow = "\<lambda>pass. False"
      and buildMin = example_buildMin and ocMin = Map.empty and oc = Map.empty
      and build = example_build and hook = example_hook and prog = example_prog
      and objDefs = JNull and staticLightList = JNull and sortedLights = JNull
      and viewUniformFormat = JNull and viewBindGroupFormat = JNull and w = "[]"]
  show ?thesis
    using h
    by (auto simp: example_externals_def engine_constants_fields strict_eq_def
        example_build_def example_hook_def example_prog_def state_after_def)
qed

text \<open>
  The theorem at concrete inputs: \<^verbatim>\<open>opacity\<close> set to its value 1, \<^verbatim>\<open>useFog\<close> set from
  true to false with the default predicate, and a variant fetched for the new material,
  whose flag is set.
\<close>

theorem dirty_tracking_witness:
  "strict_eq (vals clean_material ''opacity'') (JNum 1)
   \<and> defineValueProp_setter dirty_float ''opacity'' (JNum 1) clean_material = clean_material
   \<and> \<not> strict_eq (vals clean_material ''useFog'') (JBool False)
   \<and> \<not> dirtyShader clean_material
   \<and> dirtyShader (defineValueProp_setter (\<lambda>oldValue newValue. True) ''useFog'' (JBool False)
         clean_material)
   \<and> dirtyShader (new_StandardMaterial engine_defaults)
   \<and> fst (getShaderVariant example_externals engine_constants example_scene JNull JNull (JNum 0)
         JNull JNull JNull (new_StandardMaterial engine_defaults) []) = Inr (JObj 42)
   \<and> \<not> dirtyShader (fst (snd (getShaderVariant example_externals engine_constants example_scene
         JNull JNull (JNum 0) JNull JNull JNull (new_StandardMaterial engine_defaults) [])))"
proof -
  have a: "strict_eq (vals clean_material ''opacity'') (JNum 1)"
    and b: "\<not> strict_eq (vals clean_material ''useFog'') (JBool False)"
    by (simp_all add: clean_material_vals strict_eq_def)
  have u: "onUpdateShader (new_StandardMaterial engine_defaults) = None"
    and d: "dirtyShader (new_StandardMaterial engine_defaults)"
    by (simp_all add: new_StandardMaterial_def)
  have r: "fst (getShaderVariant example_externals engine_constants example_scene JNull JNull
                  (JNum 0) JNull JNull JNull (new_StandardMaterial engine_defaults) []) = Inr (JObj 42)"
    using getShaderVariant_without_callback[OF u, where C = engine_constants
        and sc = example_scene and pass = "JNum 0" and shadow = "\<lambda>pass. False"
        and buildMin = example_buildMin and ocMin = Map.empty and oc = Map.empty
        and build = example_build and hook = example_hook and prog = example_prog
        and objDefs = JNull and staticLightList = JNull and sortedLights = JNull
        and viewUniformFormat = JNull and viewBindGroupFormat = JNull and w = "[]"]
    by (auto simp: example_externals_def example_prog_def)
  note t1 = dirty_tracking[where s = clean_material and name = "''opacity''" and v = "JNum 1"
      and dirtyShaderFunc = dirty_float]
  note t2 = dirty_tracking[where s = clean_material and name = "''useFog''" and v = "JBool False"
      and dirtyShaderFunc = "\<lambda>oldValue newValue. True"]
  note t3 = dirty_tracking[where X = example_externals and C = engine_constants
      and sc = example_scene and objDefs = JNull and staticLightList = JNull and pass = "JNum 0"
      and sortedLights = JNull and viewUniformFormat = JNull and viewBindGroupFormat = JNull
      and s = "new_StandardMaterial engine_defaults" and w = "[]" and sh = "JObj 42"]
  have c1: "defineValueProp_setter dirty_float ''opacity'' (JNum 1) clean_material = clean_material"
    using conjunct1[OF t1] a by simp
  have c2: "dirtyShader (defineValueProp_setter (\<lambda>oldValue newValue. True) ''useFog''
              (JBool False) clean_material)"
    using conjunct1[OF conjunct2[OF t2]] b by simp
  have c3: "\<not> dirtyShader (fst (snd (getShaderVariant example_externals engine_constants
              example_scene JNull JNull (JNum 0) JNull JNull JNull
              (new_StandardMaterial engine_defaults) [])))"
    using conjunct2[OF conjunct2[OF t3]] r by simp
  show ?thesis
    using a b d r c1 c2 c3 by (simp add: clean_material_fields)
qed

section \<open>The flag is not cleared without a shader fetch\<close>

lemma dirtyShader_assign: "dirtyShader s \<Longrightarrow> dirtyShader (assign name v s)"
  by (simp add: assign_def defineValueProp_setter_def set_chunks_def Let_def)

lemma dirtyShader_assign_color: "dirtyShader s \<Longrightarrow> dirtyShader (assign_color name v s)"
  by (simp add: assign_color_def defineAggProp_setter_color_def Let_def)

lemma dirtyShader_assign_vec2: "dirtyShader s \<Longrightarrow> dirtyShader (assign_vec2 name v s)"
  by (simp add: assign_vec2_def defineAggProp_setter_vec2_def Let_def)

lemma dirtyShader_set_prefilteredCubemaps:
  "dirtyShader s \<Longrightarrow> dirtyShader (set_prefilteredCubemaps vs atlas s)"
  by (simp add: set_prefilteredCubemaps_def Let_def split: prod.splits)

lemma dirtyShader_read_prop: "dirtyShader s \<Longrightarrow> dirtyShader (read_prop name s)"
  by (simp add: read_prop_def color_getter_def get_chunks_def)

lemma dirtyShader_mutate:
  "dirtyShader s \<Longrightarrow> dirtyShader (mutate_color name c s)"
  "dirtyShader s \<Longrightarrow> dirtyShader (mutate_vec2 name v s)"
  by (simp_all add: mutate_color_def mutate_vec2_def Let_def dirtyShader_read_prop)

lemma dirtyShader_updateUniforms: "dirtyShader (state_after (updateUniforms C sc s))"
proof (cases "updateUniforms_params C sc s")
  case (Inl es)
  then show ?thesis
    using dirtyShader_updateUniforms_params[of C sc s]
    by (cases es) (simp add: updateUniforms_split state_after_def)
next
  case (Inr s1)
  then show ?thesis
    using dirtyShader_updateUniforms_params[of C sc s]
    by (simp add: updateUniforms_split state_after_def updateUniforms_end_fields)
qed

lemma dirtyShader_updateEnvUniforms:
  assumes "dirtyShader s"
  shows "dirtyShader (state_after (updateEnvUniforms C sc s))"
proof -
  obtain s0 where "updateEnvUniforms C sc s = Inr s0"
    and "dirtyShader s0 = dirtyShader s \<or> dirtyShader s0"
    using updateEnvUniforms_returns[of C sc s] by blast
  then show ?thesis
    using assms by (auto simp: state_after_def)
qed

lemma dirtyShader_setParameter: "dirtyShader (setParameter k v s) = dirtyShader s"
  by (simp add: setParameter_def split: pkey.splits)

lemma dirtyShader_exec: "dirtyShader s \<Longrightarrow> dirtyShader (exec C opn s)"
  by (cases opn)
     (simp_all add: dirtyShader_assign dirtyShader_assign_color dirtyShader_assign_vec2
       dirtyShader_set_prefilteredCubemaps dirtyShader_read_prop dirtyShader_mutate
       dirtyShader_updateUniforms dirtyShader_updateEnvUniforms dirtyShader_setParameter
       set_chunks_def get_chunks_def)

text \<open>
  C4. Over every sequence of property sets, property reads, changes in place of a
  returned aggregate, \<^verbatim>\<open>updateUniforms\<close> and \<^verbatim>\<open>updateEnvUniforms\<close> calls and parameter
  uploads, that is with no call of \<^verbatim>\<open>getShaderVariant\<close>, a flag that is set stays set:
  at every point of the sequence, and at its end.
\<close>

theorem dirtyShader_never_cleared_without_fetch:
  assumes "dirtyShader s"
  shows "dirtyShader (run C ops s) \<and> (\<forall>n \<le> length ops. dirtyShader (run C (take n ops) s))"
proof -
  have "dirtyShader (fold (exec C) xs s)" for xs
    using assms
    by (induction xs arbitrary: s) (simp_all add: dirtyShader_exec)
  then show ?thesis
    by (simp add: run_def)
qed


text \<open>The theorem at a new material and a sequence of every kind of operation.\<close>

theorem dirtyShader_never_cleared_without_fetch_witness:
  "dirtyShader (new_StandardMaterial engine_defaults)
   \<and> dirtyShader (run engine_constants
        [Read ''opacity'', Assign ''opacity'' (JNum 0.5), UpdateUniforms example_scene,
         SetParameter ''material_opacity'' (JNum 0.5),
         AssignColor ''diffuse'' \<lparr>col_r = 1, col_g = 0, col_b = 0, col_a = 1\<rparr>,
         UpdateEnvUniforms example_scene, GetChunks, UpdateUniforms example_scene]
        (new_StandardMaterial engine_defaults))"
proof -
  have d: "dirtyShader (new_StandardMaterial engine_defaults)"
    by (simp add: new_StandardMaterial_def)
  show ?thesis
    using dirtyShader_never_cleared_without_fetch[OF d] d by blast
qed

section \<open>A map with the identity transform has no transform uniform\<close>

text \<open>Tiling (1, 1), offset (0, 0) and a rotation that is \<^verbatim>\<open>=== 0\<close>.\<close>

definition identity_transform :: "string \<Rightarrow> state \<Rightarrow> bool" where
  "identity_transform name s =
     (vec2s s (name @ ''MapTiling'') = \<lparr>v2x = 1, v2y = 1\<rparr> \<and>
      vec2s s (name @ ''MapOffset'') = \<lparr>v2x = 0, v2y = 0\<rparr> \<and>
      strict_eq (vals s (name @ ''MapRotation'')) (JNum 0))"

lemma vec2_eq: "(v = \<lparr>v2x = p, v2y = q\<rparr>) = (v2x v = p \<and> v2y v = q)"
  by (cases v) simp

lemma find_same_suffix:
  "name \<in> set ps \<Longrightarrow> find (\<lambda>p. p @ t = name @ t) ps = Some name"
  by (induction ps) auto

lemma mapTransform_not_color: "name @ ''MapTransform'' \<notin> set color_props"
  by (auto simp: color_props_def dest: arg_cong[where f = length])

lemma mapTransform_not_other:
  "name @ ''MapTransform'' \<noteq> ''shininess''"
  "name @ ''MapTransform'' \<noteq> ''heightMapFactor''"
  "name @ ''MapTransform'' \<noteq> ''cubeMapProjectionBox''"
  by (auto dest: arg_cong[where f = last])

lemma getUniform_mapTransform:
  assumes "name \<in> set matTex2D"
  shows "getUniform C (name @ ''MapTransform'') scn s = Inr (uniform_mapTransform name s)"
  using find_same_suffix[OF assms, of "''MapTransform''"]
  by (simp add: getUniform_def mapTransform_not_color mapTransform_not_other)

lemma uniform_mapTransform_identity:
  "identity_transform name s \<Longrightarrow> uniform_mapTransform name s = (JNull, s)"
  by (simp add: uniform_mapTransform_def identity_transform_def vec2_eq Let_def)

lemma uniform_mapTransform_other:
  assumes "\<not> identity_transform name s"
  shows "fst (uniform_mapTransform name s) = JEntries (name @ ''MapTransform'')"
    and "cacheEntries (snd (uniform_mapTransform name s)) (name @ ''MapTransform'') \<noteq> None"
    and "sets (snd (uniform_mapTransform name s)) = sets s"
    and "params (snd (uniform_mapTransform name s)) = params s"
  using assms
  by (auto simp: uniform_mapTransform_def identity_transform_def vec2_eq Let_def
      split: prod.splits)

lemma entry_name_mapTransform:
  "entry_name (name @ ''MapTransform'') 0 = ''texture_'' @ name @ ''MapTransform0''"
  "entry_name (name @ ''MapTransform'') 1 = ''texture_'' @ name @ ''MapTransform1''"
  "entry_name (name @ ''MapTransform'') (Suc 0) = ''texture_'' @ name @ ''MapTransform1''"
  by (simp_all add: entry_name_def mapTransform_not_other)

lemma sets_p_setParameter:
  "sets (p_setParameter k v s) = (sets s)(params s := set_add k (sets s (params s)))"
  "params (p_setParameter k v s) = params s"
  "vals (p_setParameter k v s) = vals s"
  "vec2s (p_setParameter k v s) = vec2s s"
  by (simp_all add: p_setParameter_def setParameter_def split: pkey.splits)

lemma identity_transform_p_setParameter:
  "identity_transform name (p_setParameter k v s) = identity_transform name s"
  by (simp add: identity_transform_def sets_p_setParameter)

text \<open>
  C5. For every texture slot \<^verbatim>\<open>name\<close> of \<^verbatim>\<open>_matTex2D\<close>, the uniform function
  \<^verbatim>\<open><name>MapTransform\<close> returns \<^verbatim>\<open>null\<close> exactly when the tiling is (1, 1), the offset
  (0, 0) and the rotation 0, and otherwise the cached array of the two entries named
  \<^verbatim>\<open>texture_<name>MapTransform0\<close> and \<^verbatim>\<open>texture_<name>MapTransform1\<close>. For a bound map,
  \<^verbatim>\<open>_updateMap\<close> then registers \<^verbatim>\<open>texture_<name>Map\<close> alone in the first case, and the
  two transform parameters after it in the second.
\<close>

theorem mapTransform_identity_elision:
  assumes slot: "name \<in> set matTex2D"
  shows "(\<exists>v s'. getUniform C (name @ ''MapTransform'') scn s = Inr (v, s')
            \<and> (v = JNull) = identity_transform name s
            \<and> (\<not> identity_transform name s \<longrightarrow>
                 v = JEntries (name @ ''MapTransform'')
                 \<and> cacheEntries s' (name @ ''MapTransform'') \<noteq> None
                 \<and> entry_name (name @ ''MapTransform'') 0 = ''texture_'' @ name @ ''MapTransform0''
                 \<and> entry_name (name @ ''MapTransform'') 1 = ''texture_'' @ name @ ''MapTransform1''))
       \<and> (truthy (vals s (name @ ''Map'')) \<longrightarrow>
            (\<exists>s'. p_updateMap C name s = Inr s'
               \<and> sets s' (params s') =
                   (if identity_transform name s
                    then set_add (PName (''texture_'' @ name @ ''Map'')) (sets s (params s))
                    else set_add (PName (''texture_'' @ name @ ''MapTransform1''))
                           (set_add (PName (''texture_'' @ name @ ''MapTransform0''))
                              (set_add (PName (''texture_'' @ name @ ''Map''))
                                 (sets s (params s)))))))"
proof (intro conjI impI)
  show "\<exists>v s'. getUniform C (name @ ''MapTransform'') scn s = Inr (v, s')
            \<and> (v = JNull) = identity_transform name s
            \<and> (\<not> identity_transform name s \<longrightarrow>
                 v = JEntries (name @ ''MapTransform'')
                 \<and> cacheEntries s' (name @ ''MapTransform'') \<noteq> None
                 \<and> entry_name (name @ ''MapTransform'') 0 = ''texture_'' @ name @ ''MapTransform0''
                 \<and> entry_name (name @ ''MapTransform'') 1 = ''texture_'' @ name @ ''MapTransform1'')"
  proof (cases "identity_transform name s")
    case True
    then show ?thesis
      by (simp add: getUniform_mapTransform[OF slot] uniform_mapTransform_identity)
  next
    case False
    obtain v s' where vs: "uniform_mapTransform name s = (v, s')"
      by (cases "uniform_mapTransform name s")
    then show ?thesis
      using False uniform_mapTransform_other[OF False]
      by (simp add: getUniform_mapTransform[OF slot] entry_name_mapTransform)
  qed
next
  assume bound: "truthy (vals s (name @ ''Map''))"
  let ?s1 = "p_setParameter (PName (''texture_'' @ name @ ''Map'')) (vals s (name @ ''Map'')) s"
  have id1: "identity_transform name ?s1 = identity_transform name s"
    by (rule identity_transform_p_setParameter)
  show "\<exists>s'. p_updateMap C name s = Inr s'
          \<and> sets s' (params s') =
              (if identity_transform name s
               then set_add (PName (''texture_'' @ name @ ''Map'')) (sets s (params s))
               else set_add (PName (''texture_'' @ name @ ''MapTransform1''))
                      (set_add (PName (''texture_'' @ name @ ''MapTransform0''))
                         (set_add (PName (''texture_'' @ name @ ''Map'')) (sets s (params s)))))"
  proof (cases "identity_transform name s")
    case True
    then show ?thesis
      using bound id1
      by (simp add: p_updateMap_def Let_def getUniform_mapTransform[OF slot]
          uniform_mapTransform_identity sets_p_setParameter)
  next
    case False
    then have n1: "\<not> identity_transform name ?s1"
      using id1 by simp
    obtain v s2 where vs: "uniform_mapTransform name ?s1 = (v, s2)"
      by (cases "uniform_mapTransform name ?s1")
    have v: "v = JEntries (name @ ''MapTransform'')" and s2: "sets s2 = sets ?s1"
      and p2: "params s2 = params ?s1"
      using uniform_mapTransform_other[OF n1] vs by simp_all
    show ?thesis
      using bound False vs v s2 p2
      by (simp add: p_updateMap_def Let_def getUniform_mapTransform[OF slot]
          p_setParameters_def sets_p_setParameter entry_name_mapTransform)
  qed
qed


lemma clean_material_vec2s:
  "vec2s clean_material ''diffuseMapTiling'' = \<lparr>v2x = 1, v2y = 1\<rparr>"
  "vec2s clean_material ''diffuseMapOffset'' = \<lparr>v2x = 0, v2y = 0\<rparr>"
  by (simp_all add: clean_material_def new_StandardMaterial_def matTex2D_def tex2d_defs_def)

lemma example_transforms:
  "''diffuse'' \<in> set matTex2D"
  "identity_transform ''diffuse'' textured_material"
  "\<not> identity_transform ''diffuse'' offset_material"
  "truthy (vals textured_material ''diffuseMap'')"
  "truthy (vals offset_material ''diffuseMap'')"
  "params textured_material = 0" "sets textured_material 0 = []"
  "params offset_material = 0" "sets offset_material 0 = []"
  by (simp_all add: matTex2D_def tex2d_defs_def identity_transform_def textured_material_def
      offset_material_def clean_material_vec2s clean_material_vals clean_material_fields
      strict_eq_def example_texture_def set_clear_def)

text \<open>
  The theorem at the diffuse map, once with the default transform and once with an
  offset of (0.5, 0).
\<close>

theorem mapTransform_identity_elision_witness:
  "''diffuse'' \<in> set matTex2D
   \<and> identity_transform ''diffuse'' textured_material
   \<and> uniform_value (getUniform engine_constants ''diffuseMapTransform'' None textured_material)
       = JNull
   \<and> sets (state_after (p_updateMap engine_constants ''diffuse'' textured_material)) 0
       = [PName ''texture_diffuseMap'']
   \<and> \<not> identity_transform ''diffuse'' offset_material
   \<and> uniform_value (getUniform engine_constants ''diffuseMapTransform'' None offset_material)
       = JEntries ''diffuseMapTransform''
   \<and> sets (state_after (p_updateMap engine_constants ''diffuse'' offset_material)) 0
       = [PName ''texture_diffuseMap'', PName ''texture_diffuseMapTransform0'',
          PName ''texture_diffuseMapTransform1'']"
proof -
  note t1 = mapTransform_identity_elision[OF example_transforms(1), of engine_constants None
      textured_material]
  note t2 = mapTransform_identity_elision[OF example_transforms(1), of engine_constants None
      offset_material]
  have a: "uniform_value (getUniform engine_constants ''diffuseMapTransform'' None
             textured_material) = JNull"
    using conjunct1[OF t1] example_transforms(2) by (auto simp: uniform_value_def)
  have b: "uniform_value (getUniform engine_constants ''diffuseMapTransform'' None
             offset_material) = JEntries ''diffuseMapTransform''"
    using conjunct1[OF t2] example_transforms(3) by (auto simp: uniform_value_def)
  obtain s1 where s1: "p_updateMap engine_constants ''diffuse'' textured_material = Inr s1"
    and k1: "sets s1 (params s1) = [PName ''texture_diffuseMap'']"
    using conjunct2[OF t1] example_transforms
    by (auto simp: set_add_def set_has_def)
  obtain s2 where s2: "p_updateMap engine_constants ''diffuse'' offset_material = Inr s2"
    and k2: "sets s2 (params s2) = [PName ''texture_diffuseMap'',
               PName ''texture_diffuseMapTransform0'', PName ''texture_diffuseMapTransform1'']"
    using conjunct2[OF t2] example_transforms
    by (auto simp: set_add_def set_has_def)
  have p1: "params s1 = 0"
    using framedD[OF framed_p_updateMap, of textured_material engine_constants "''diffuse''"] s1
      example_transforms
    by (simp add: frame_def state_after_def)
  have p2: "params s2 = 0"
    using framedD[OF framed_p_updateMap, of offset_material engine_constants "''diffuse''"] s2
      example_transforms
    by (simp add: frame_def state_after_def)
  show ?thesis
    using a b s1 s2 k1 k2 p1 p2 example_transforms by (simp add: state_after_def)
qed

section \<open>Parameters that are no longer active are removed\<close>

lemma fold_delete_unused:
  "fold (delete_unused cur) prev tbl k =
     (if \<exists>p \<in> set prev. \<not> set_has cur p \<and> key_of p = k then None else tbl k)"
  by (induction prev arbitrary: tbl) (auto simp: delete_unused_def)

lemma parameters_p_processParameters:
  "parameters (p_processParameters f s) k =
     (if \<exists>p \<in> set (sets s (get_field f s)). \<not> set_has (sets s (params s)) p \<and> key_of p = k
      then None else parameters s k)"
  by (cases f)
     (simp_all add: p_processParameters_def Let_def set_field_def get_field_def fold_delete_unused)

text \<open>
  One \<^verbatim>\<open>_processParameters\<close> step. A key of the material's active-parameter set of the
  update before (the set the material holds when the step starts) that is not in the
  set of this update (the module's \<^verbatim>\<open>_params\<close>) is not in \<^verbatim>\<open>this.parameters\<close> after
  the step; every other parameter is as before. The two \<^verbatim>\<open>Set\<close> objects are exchanged,
  none is allocated: the material now holds the object that was \<^verbatim>\<open>_params\<close>, with the
  names of this update, and \<^verbatim>\<open>_params\<close> is the object the material held, emptied.
\<close>

theorem processParameters_cleanup:
  "(set_has (sets s (get_field paramsName s)) P \<and> \<not> set_has (sets s (params s)) P \<longrightarrow>
      parameters (p_processParameters paramsName s) (key_of P) = None)
   \<and> ((\<forall>p. set_has (sets s (get_field paramsName s)) p \<and> \<not> set_has (sets s (params s)) p \<longrightarrow>
            key_of p \<noteq> k) \<longrightarrow>
        parameters (p_processParameters paramsName s) k = parameters s k)
   \<and> get_field paramsName (p_processParameters paramsName s) = params s
   \<and> params (p_processParameters paramsName s) = get_field paramsName s
   \<and> sets (p_processParameters paramsName s) (params (p_processParameters paramsName s)) = set_clear
   \<and> (params s \<noteq> get_field paramsName s \<longrightarrow>
        sets (p_processParameters paramsName s)
          (get_field paramsName (p_processParameters paramsName s)) = sets s (params s))
   \<and> (\<forall>a. a \<noteq> get_field paramsName s \<longrightarrow> sets (p_processParameters paramsName s) a = sets s a)"
  by (auto simp: parameters_p_processParameters p_processParameters_fields set_has_def)

text \<open>
  The theorem at a material in the middle of an update: \<^verbatim>\<open>material_clearCoat\<close> was
  active in the update before and is not registered in this one.
\<close>

theorem processParameters_cleanup_witness:
  "set_has (sets updating_material (get_field ActiveParams updating_material))
     (PName ''material_clearCoat'')
   \<and> \<not> set_has (sets updating_material (params updating_material)) (PName ''material_clearCoat'')
   \<and> parameters updating_material ''material_clearCoat'' = Some (JNum 0.5)
   \<and> parameters (p_processParameters ActiveParams updating_material) ''material_clearCoat'' = None
   \<and> parameters (p_processParameters ActiveParams updating_material) ''material_opacity''
       = Some (JNum 1)
   \<and> activeParams updating_material = 1 \<and> params updating_material = 0
   \<and> activeParams (p_processParameters ActiveParams updating_material) = 0
   \<and> params (p_processParameters ActiveParams updating_material) = 1
   \<and> sets (p_processParameters ActiveParams updating_material) 0
       = [PName ''material_ambient'', PName ''material_opacity'']
   \<and> sets (p_processParameters ActiveParams updating_material) 1 = []"
proof -
  have f: "activeParams updating_material = 1" "params updating_material = 0"
    "sets updating_material 0 = [PName ''material_ambient'', PName ''material_opacity'']"
    "sets updating_material 1 = [PName ''material_ambient'', PName ''material_clearCoat'',
       PName ''material_opacity'']"
    "sets updating_material (Suc 0) = [PName ''material_ambient'', PName ''material_clearCoat'',
       PName ''material_opacity'']"
    "parameters updating_material ''material_clearCoat'' = Some (JNum 0.5)"
    "parameters updating_material ''material_opacity'' = Some (JNum 1)"
    by (simp_all add: updating_material_def clean_material_fields)
  note t = processParameters_cleanup[of updating_material ActiveParams
      "PName ''material_clearCoat''" "''material_opacity''"]
  have h: "set_has (sets updating_material (get_field ActiveParams updating_material))
             (PName ''material_clearCoat'')"
    "\<not> set_has (sets updating_material (params updating_material)) (PName ''material_clearCoat'')"
    by (simp_all add: f get_field_def set_has_def)
  have k: "\<forall>p. set_has (sets updating_material (get_field ActiveParams updating_material)) p
             \<and> \<not> set_has (sets updating_material (params updating_material)) p
             \<longrightarrow> key_of p \<noteq> ''material_opacity''"
    by (auto simp: f get_field_def set_has_def key_of_def)
  have c1: "parameters (p_processParameters ActiveParams updating_material) ''material_clearCoat''
              = None"
    using conjunct1[OF t] h by (simp add: key_of_def)
  have c2: "parameters (p_processParameters ActiveParams updating_material) ''material_opacity''
              = Some (JNum 1)"
    using conjunct1[OF conjunct2[OF t]] k f by simp
  have c3: "activeParams (p_processParameters ActiveParams updating_material) = 0"
    "params (p_processParameters ActiveParams updating_material) = 1"
    "sets (p_processParameters ActiveParams updating_material) 1 = []"
    "sets (p_processParameters ActiveParams updating_material) 0
       = [PName ''material_ambient'', PName ''material_opacity'']"
    using conjunct2[OF conjunct2[OF t]] f by (auto simp: get_field_def set_clear_def)
  show ?thesis
    using h f c1 c2 c3 by simp
qed


section \<open>Between two updates\<close>

text \<open>
  The state the module and a material are in between two updates: the three \<^verbatim>\<open>Set\<close>
  references are different objects and the module's \<^verbatim>\<open>_params\<close> is empty. The
  constructor establishes it, and every operation that returns keeps it; an update that
  throws leaves the names it had registered in \<^verbatim>\<open>_params\<close>.
\<close>

definition between_updates :: "state \<Rightarrow> bool" where
  "between_updates s =
     (params s \<noteq> activeParams s \<and> params s \<noteq> activeLightingParams s \<and>
      activeParams s \<noteq> activeLightingParams s \<and> sets s (params s) = set_clear)"

lemma between_updates_new: "between_updates (new_StandardMaterial D)"
  by (simp add: between_updates_def new_StandardMaterial_def)

lemma between_updates_cong:
  assumes "between_updates s" and "params s' = params s" and "activeParams s' = activeParams s"
    and "activeLightingParams s' = activeLightingParams s" and "sets s' = sets s"
  shows "between_updates s'"
  using assms by (simp add: between_updates_def)

lemma assign_sets:
  "params (assign name v s) = params s" "activeParams (assign name v s) = activeParams s"
  "activeLightingParams (assign name v s) = activeLightingParams s"
  "sets (assign name v s) = sets s"
  by (simp_all add: assign_def defineValueProp_setter_def set_chunks_def Let_def)

lemma set_prefilteredCubemaps_sets:
  "params (set_prefilteredCubemaps vs atlas s) = params s"
  "activeParams (set_prefilteredCubemaps vs atlas s) = activeParams s"
  "activeLightingParams (set_prefilteredCubemaps vs atlas s) = activeLightingParams s"
  "sets (set_prefilteredCubemaps vs atlas s) = sets s"
  by (simp_all add: set_prefilteredCubemaps_def Let_def assign_sets split: prod.splits)

lemma between_updates_updateUniforms:
  assumes b: "between_updates s" and r: "updateUniforms C sc s = Inr s'"
  shows "between_updates s'"
proof -
  obtain s1 where s1: "updateUniforms_params C sc s = Inr s1" and s': "s' = updateUniforms_end s1"
    using r by (auto simp: updateUniforms_split split: sum.splits)
  have "frame s s1"
    using framedD[OF framed_updateUniforms_params, of s C sc] s1 by (simp add: state_after_def)
  then show ?thesis
    using b unfolding s'
    by (auto simp: between_updates_def frame_def updateUniforms_end_fields
        updateUniforms_end_def Let_def clearVariants_def p_processParameters_def get_field_def
        set_field_def)
qed

lemma between_updates_updateEnvUniforms:
  assumes b: "between_updates s"
  shows "between_updates (state_after (updateEnvUniforms C sc s))"
proof -
  obtain s1 where s1: "updateEnvUniforms_params C sc s = Inr s1"
    using returns_updateEnvUniforms_params[of C sc]
    by (cases "updateEnvUniforms_params C sc s") (auto simp: returns_def isl_def)
  have "frame s s1"
    using framedD[OF framed_updateEnvUniforms_params, of s C sc] s1
    by (simp add: state_after_def)
  then show ?thesis
    using b s1
    by (auto simp: between_updates_def frame_def updateEnvUniforms_def state_after_def
        p_processParameters_def Let_def get_field_def set_field_def)
qed

lemma between_updates_exec:
  assumes b: "between_updates s"
    and r: "\<And>sc. opn = UpdateUniforms sc \<Longrightarrow> \<not> isl (updateUniforms C sc s)"
  shows "between_updates (exec C opn s)"
proof (cases opn)
  case (UpdateUniforms sc)
  then obtain s' where "updateUniforms C sc s = Inr s'"
    using r by (cases "updateUniforms C sc s") auto
  then show ?thesis
    using between_updates_updateUniforms[OF b] UpdateUniforms by (simp add: state_after_def)
next
  case (UpdateEnvUniforms sc)
  then show ?thesis
    using between_updates_updateEnvUniforms[OF b] by simp
qed (auto intro!: between_updates_cong[OF b]
      simp: assign_sets set_prefilteredCubemaps_sets assign_color_def assign_vec2_def
        defineAggProp_setter_color_def defineAggProp_setter_vec2_def read_prop_def
        color_getter_def mutate_color_def mutate_vec2_def set_chunks_def get_chunks_def
        setParameter_def Let_def)

section \<open>Two updates in a row\<close>

text \<open>
  A name registered in the update before, that is in the set the material holds between
  the updates, and not registered in an update that returns, is not in the table
  afterwards.
\<close>

lemma updateUniforms_removes_inactive:
  assumes b: "between_updates s" and r: "updateUniforms C sc s = Inr s'"
    and before: "set_has (sets s (activeParams s)) P"
    and now: "\<not> set_has (sets s' (activeParams s')) P"
  shows "parameters s' (key_of P) = None"
proof -
  obtain s1 where s1: "updateUniforms_params C sc s = Inr s1" and s': "s' = updateUniforms_end s1"
    using r by (auto simp: updateUniforms_split split: sum.splits)
  have f: "frame s s1"
    using framedD[OF framed_updateUniforms_params, of s C sc] s1 by (simp add: state_after_def)
  have ne: "params s1 \<noteq> activeParams s1"
    using f b by (simp add: frame_def between_updates_def)
  have prev: "set_has (sets s1 (get_field ActiveParams s1)) P"
    using f b before by (simp add: frame_def between_updates_def get_field_def)
  have cur: "\<not> set_has (sets s1 (params s1)) P"
    using now ne unfolding s' by (simp add: updateUniforms_end_fields)
  have "parameters s' = parameters (p_processParameters ActiveParams s1)"
    unfolding s' by (simp add: updateUniforms_end_def Let_def clearVariants_def)
  then show ?thesis
    using prev cur by (auto simp: parameters_p_processParameters set_has_def)
qed

section \<open>Following one update\<close>

text \<open>
  To follow an update on a given material: \<open>tracks V P s\<close> says that the value properties
  of \<open>s\<close> are \<open>V\<close> and that \<open>P\<close> holds of the module's \<^verbatim>\<open>_params\<close> and of the parameter
  table; \<open>grows N P\<close> says that \<open>P\<close> survives registering a name that satisfies \<open>N\<close>;
  \<open>passes I g f\<close> says that from a state with \<open>I\<close> and \<open>g\<close> the statement \<open>f\<close> returns
  and keeps \<open>I\<close>; and \<open>hoare3 P f Q E\<close> that from a state with \<open>P\<close> the statement
  returns in a state with \<open>Q\<close> or throws in a state with \<open>E\<close>.
\<close>

definition tracks ::
  "(string \<Rightarrow> jsval) \<Rightarrow> (pkey jsset \<Rightarrow> (string \<rightharpoonup> jsval) \<Rightarrow> bool) \<Rightarrow> state \<Rightarrow> bool" where
  "tracks V P s = (vals s = V \<and> P (sets s (params s)) (parameters s))"

definition grows :: "(string \<Rightarrow> bool) \<Rightarrow> (pkey jsset \<Rightarrow> (string \<rightharpoonup> jsval) \<Rightarrow> bool) \<Rightarrow> bool" where
  "grows N P = (\<forall>L T n v. N n \<longrightarrow> P L T \<longrightarrow> P (set_add (PName n) L) (T(n \<mapsto> v)))"

definition passes :: "(state \<Rightarrow> bool) \<Rightarrow> (state \<Rightarrow> bool) \<Rightarrow> (state \<Rightarrow> state result) \<Rightarrow> bool" where
  "passes I g f = (\<forall>s. I s \<and> g s \<longrightarrow> (\<exists>s'. f s = Inr s' \<and> I s'))"

definition hoare3 ::
  "(state \<Rightarrow> bool) \<Rightarrow> (state \<Rightarrow> state result) \<Rightarrow> (state \<Rightarrow> bool) \<Rightarrow> (state \<Rightarrow> bool) \<Rightarrow> bool" where
  "hoare3 P f Q E = (\<forall>s. P s \<longrightarrow> (case f s of Inl (e, s') \<Rightarrow> E s' | Inr s' \<Rightarrow> Q s'))"

lemma passesD: "passes I g f \<Longrightarrow> I s \<Longrightarrow> g s \<Longrightarrow> \<exists>s'. f s = Inr s' \<and> I s'"
  by (simp add: passes_def)

lemma passes_weaken: "passes I (\<lambda>s. True) f \<Longrightarrow> passes I g f"
  by (simp add: passes_def)

lemma passes_seq_Nil: "passes I g (seq [])"
  by (simp add: passes_def)

lemma passes_seq_Cons:
  assumes "passes I g f" and "passes I (\<lambda>s. True) (seq fs)"
  shows "passes I g (seq (f # fs))"
  unfolding passes_def
proof (intro allI impI)
  fix s
  assume a: "I s \<and> g s"
  then obtain s' where s': "f s = Inr s'" "I s'"
    using passesD[OF assms(1), of s] by auto
  then obtain s'' where "seq fs s' = Inr s''" "I s''"
    using passesD[OF assms(2), of s'] by auto
  then show "\<exists>t. seq (f # fs) s = Inr t \<and> I t"
    using s' by simp
qed

lemma passes_seq_map:
  assumes "\<And>p. p \<in> set ps \<Longrightarrow> passes I (\<lambda>s. True) (h p)"
  shows "passes I g (seq (map h ps))"
proof (rule passes_weaken)
  show "passes I (\<lambda>s. True) (seq (map h ps))"
    using assms by (induction ps) (simp_all add: passes_seq_Nil passes_seq_Cons)
qed

lemma passes_if_then: "passes I (\<lambda>s. g s \<and> c s) f \<Longrightarrow> passes I g (if_then c f)"
  by (simp add: passes_def if_then_def)

lemma passes_if_else:
  "passes I (\<lambda>s. g s \<and> c s) f \<Longrightarrow> passes I (\<lambda>s. g s \<and> \<not> c s) h \<Longrightarrow> passes I g (if_else c f h)"
  by (simp add: passes_def if_else_def)

lemma tracks_p_setParameter:
  "tracks V P s \<Longrightarrow> grows N P \<Longrightarrow> N n \<Longrightarrow> tracks V P (p_setParameter (PName n) v s)"
  by (simp add: tracks_def grows_def p_setParameter_def setParameter_def)

lemma parameters_getUniform: "parameters (uniform_state (getUniform C name scn s)) = parameters s"
  by (simp add: getUniform_def uniform_state_def uniform_color_def color_getter_def
      uniform_cubeMapProjectionBox_def uniform_mapTransform_def Let_def split_def
      split: option.splits jsval.splits)

lemma tracks_getUniform:
  assumes "tracks V P s"
  shows "tracks V P (uniform_state (getUniform C name scn s))"
  using assms frame_getUniform[of s C name scn] sets_getUniform[of C name scn s]
    parameters_getUniform[of C name scn s]
  by (simp add: tracks_def frame_def)

lemma getUniform_returns:
  assumes "uname \<in> set color_props \<or> uname = ''shininess'' \<or> uname = ''heightMapFactor''"
  shows "\<exists>v s'. getUniform C uname (Some sc) s = Inr (v, s')"
proof (cases "uname \<in> set color_props")
  case True
  then show ?thesis
    using uniform_color_scene[of uname sc s] by (auto simp: getUniform_color)
next
  case False
  then show ?thesis
    using assms by (auto simp: getUniform_def)
qed

lemma passes_set_value:
  assumes gr: "grows N P" and n: "\<And>s. vals s = V \<Longrightarrow> g s \<Longrightarrow> N pname"
  shows "passes (tracks V P) g (set_value pname e)"
  unfolding passes_def
proof (intro allI impI)
  fix s
  assume a: "tracks V P s \<and> g s"
  then have "N pname"
    using n[of s] by (simp add: tracks_def)
  then have "tracks V P (p_setParameter (PName pname) (e s) s)"
    using a gr by (simp add: tracks_p_setParameter)
  then show "\<exists>t. set_value pname e s = Inr t \<and> tracks V P t"
    by (simp add: set_value_def)
qed

lemma passes_set_uniform:
  assumes gr: "grows N P"
    and u: "uname \<in> set color_props \<or> uname = ''shininess'' \<or> uname = ''heightMapFactor''"
    and n: "\<And>s. vals s = V \<Longrightarrow> g s \<Longrightarrow> N pname"
  shows "passes (tracks V P) g (set_uniform C sc pname uname)"
  unfolding passes_def
proof (intro allI impI)
  fix s
  assume a: "tracks V P s \<and> g s"
  obtain v s' where r: "getUniform C uname (Some sc) s = Inr (v, s')"
    using getUniform_returns[OF u] by blast
  have "tracks V P s'"
    using tracks_getUniform[of V P s C uname "Some sc"] a r by (simp add: uniform_state_def)
  moreover have "N pname"
    using n[of s] a by (simp add: tracks_def)
  ultimately have "tracks V P (p_setParameter (PName pname) v s')"
    using gr by (simp add: tracks_p_setParameter)
  then show "\<exists>t. set_uniform C sc pname uname s = Inr t \<and> tracks V P t"
    using r by (simp add: set_uniform_def)
qed

lemma passes_unreached:
  assumes "\<And>s. vals s = V \<Longrightarrow> g s \<Longrightarrow> False"
  shows "passes (tracks V P) g (set_box_uniform C sc)"
  using assms by (auto simp: passes_def tracks_def)

lemma passes_p_updateMap:
  assumes gr: "grows N P" and p: "p \<in> set matTex2D" and n: "\<And>n. N (''texture_'' @ n)"
  shows "passes (tracks V P) g (p_updateMap C p)"
  unfolding passes_def
proof (intro allI impI)
  fix s
  assume a: "tracks V P s \<and> g s"
  let ?s1 = "p_setParameter (PName (''texture_'' @ p @ ''Map'')) (vals s (p @ ''Map'')) s"
  have i1: "tracks V P ?s1"
    using a gr n[of "p @ ''Map''"] by (simp add: tracks_p_setParameter)
  obtain u s2 where r: "getUniform C (p @ ''MapTransform'') None ?s1 = Inr (u, s2)"
    using getUniform_mapTransform[OF p, of C None ?s1]
    by (cases "uniform_mapTransform p ?s1") simp
  have i2: "tracks V P s2"
    using tracks_getUniform[OF i1, of C "p @ ''MapTransform''" None] r
    by (simp add: uniform_state_def)
  have i3: "tracks V P (p_setParameters (p @ ''MapTransform'') s2)"
    unfolding p_setParameters_def entry_name_mapTransform
    using i2 gr n[of "p @ ''MapTransform0''"] n[of "p @ ''MapTransform1''"]
    by (simp add: tracks_p_setParameter)
  show "\<exists>t. p_updateMap C p s = Inr t \<and> tracks V P t"
    using a r i2 i3 by (simp add: p_updateMap_def Let_def)
qed

lemma hoare3D:
  "hoare3 P f Q E \<Longrightarrow> P s \<Longrightarrow> (case f s of Inl (e, s') \<Rightarrow> E s' | Inr s' \<Rightarrow> Q s')"
  by (simp add: hoare3_def)

lemma hoare3_passes: "passes I (\<lambda>s. True) f \<Longrightarrow> hoare3 I f I E"
  by (auto simp: hoare3_def passes_def)

lemma seq_append:
  "seq (fs @ hs) s = (case seq fs s of Inl e \<Rightarrow> Inl e | Inr s' \<Rightarrow> seq hs s')"
  by (induction fs arbitrary: s) (simp_all split: sum.splits)

lemma hoare3_seq_at:
  assumes n: "n < length fs"
    and a: "hoare3 P (seq (take n fs)) R E"
    and b: "hoare3 R (fs ! n) R' E"
    and c: "hoare3 R' (seq (drop (Suc n) fs)) Q E"
  shows "hoare3 P (seq fs) Q E"
proof -
  have fs: "fs = take n fs @ (fs ! n) # drop (Suc n) fs"
    using n by (simp add: id_take_nth_drop)
  show ?thesis
    unfolding hoare3_def
  proof (intro allI impI)
    fix s
    assume p: "P s"
    have s: "seq fs s =
        (case seq (take n fs) s of Inl e \<Rightarrow> Inl e
         | Inr s1 \<Rightarrow> (case (fs ! n) s1 of Inl e \<Rightarrow> Inl e | Inr s2 \<Rightarrow> seq (drop (Suc n) fs) s2))"
      by (subst fs) (simp add: seq_append split: sum.splits)
    show "case seq fs s of Inl (e, s') \<Rightarrow> E s' | Inr s' \<Rightarrow> Q s'"
    proof (cases "seq (take n fs) s")
      case (Inl e)
      then show ?thesis
        using hoare3D[OF a p] s by simp
    next
      case s1: (Inr s1)
      then have r: "R s1"
        using hoare3D[OF a p] by simp
      show ?thesis
      proof (cases "(fs ! n) s1")
        case (Inl e)
        then show ?thesis
          using hoare3D[OF b r] s s1 by simp
      next
        case (Inr s2)
        then have "R' s2"
          using hoare3D[OF b r] by simp
        then show ?thesis
          using hoare3D[OF c, of s2] s s1 Inr by simp
      qed
    qed
  qed
qed

lemma hoare3_False: "hoare3 (\<lambda>s. False) f Q E"
  by (simp add: hoare3_def)

lemma passes_without_box:
  assumes gr: "grows N P"
    and box: "\<not> strict_eq (V ''cubeMapProjection'') (CUBEPROJ_BOX C)"
    and names: "\<And>n. n \<noteq> ''envBoxMin'' \<Longrightarrow> n \<noteq> ''envBoxMax'' \<Longrightarrow> n \<noteq> ''material_clearCoat'' \<Longrightarrow> N n"
    and cc: "js_gt (num_of (V ''clearCoat'')) (Some 0) \<Longrightarrow> N ''material_clearCoat''"
  shows "passes (tracks V P) (\<lambda>s. True) (updateUniforms_params C sc)"
  unfolding updateUniforms_params_def
  by (intro passes_seq_Nil passes_seq_Cons passes_seq_map passes_if_then passes_if_else
        passes_set_value[OF gr] passes_set_uniform[OF gr] passes_p_updateMap[OF gr]
        passes_unreached)
     (simp_all add: names cc box color_props_def)

lemma getUniform_box: "getUniform C ''cubeMapProjectionBox'' scn s = uniform_cubeMapProjectionBox s"
  by (simp add: getUniform_def color_props_def)

lemma grows_member: "grows (\<lambda>n. True) (\<lambda>L T. k \<in> set L)"
  by (simp add: grows_def set_add_def set_has_def)

lemma grows_True: "grows (\<lambda>n. True) (\<lambda>L T. True)"
  by (simp add: grows_def)

lemma grows_member_bound:
  "grows (\<lambda>n. n \<noteq> a) (\<lambda>L T. PName a \<in> set L \<and> T a = Some x)"
  by (simp add: grows_def set_add_def set_has_def)

lemma failed_pass:
  assumes cc: "V ''clearCoat'' = JNum (1 / 2)"
    and box: "strict_eq (V ''cubeMapProjection'') (CUBEPROJ_BOX C)"
    and nobox: "V ''cubeMapProjectionBox'' = JNull"
  shows "hoare3 (tracks V (\<lambda>L T. True)) (updateUniforms_params C sc) (\<lambda>s. False)
           (tracks V (\<lambda>L T. PName ''material_clearCoat'' \<in> set L \<and>
                           T ''material_clearCoat'' = Some (JNum (1 / 2))))"
  unfolding updateUniforms_params_def
  apply (rule hoare3_seq_at[where n = 4 and R = "tracks V (\<lambda>L T. True)"
        and R' = "tracks V (\<lambda>L T. PName ''material_clearCoat'' \<in> set L \<and>
                           T ''material_clearCoat'' = Some (JNum (1 / 2)))"])
  subgoal by simp
  subgoal
    apply simp
    apply (rule hoare3_passes)
    apply (intro passes_seq_Nil passes_seq_Cons passes_if_then passes_if_else
        passes_set_value[OF grows_True] passes_set_uniform[OF grows_True])
    apply (simp_all add: color_props_def)
    done
  subgoal
    apply simp
    apply (auto simp: hoare3_def if_then_def set_value_def tracks_def sets_p_setParameter
        set_add_def set_has_def cc js_gt_def js_lt_def p_setParameter_def setParameter_def)
    done
  subgoal
    apply simp
    apply (rule hoare3_seq_at[where n = 9
          and R = "tracks V (\<lambda>L T. PName ''material_clearCoat'' \<in> set L \<and>
                           T ''material_clearCoat'' = Some (JNum (1 / 2)))"
          and R' = "\<lambda>s. False"])
    subgoal by simp
    subgoal
      apply simp
      apply (rule hoare3_passes)
      apply (intro passes_seq_Nil passes_seq_Cons passes_if_then passes_if_else
          passes_set_value[OF grows_member_bound] passes_set_uniform[OF grows_member_bound])
      apply (simp_all add: color_props_def)
      done
    subgoal
      apply simp
      apply (auto simp: hoare3_def if_then_def set_box_uniform_def getUniform_box
          uniform_cubeMapProjectionBox_def p_allocUniform_def tracks_def box nobox Let_def
          split: option.splits)
      done
    subgoal by (rule hoare3_False)
    done
  done

lemma grows_unnamed:
  "grows (\<lambda>n. n \<noteq> a \<and> n \<noteq> b) (\<lambda>L T. PName a \<notin> set L \<and> PName b \<notin> set L)"
  by (auto simp: grows_def set_add_def set_has_def)

lemma grows_bound:
  "grows (\<lambda>n. n \<noteq> a \<and> n \<noteq> b)
     (\<lambda>L T. PName a \<notin> set L \<and> PName b \<notin> set L \<and> T a = Some x \<and> T b = Some y)"
  by (auto simp: grows_def set_add_def set_has_def)

lemma grows_box:
  "grows (\<lambda>n. n \<noteq> a \<and> n \<noteq> b)
     (\<lambda>L T. PName a \<notin> set L \<and> PName b \<notin> set L \<and> k \<in> set L \<and>
            T a = Some x \<and> T b = Some y)"
  by (auto simp: grows_def set_add_def set_has_def)

lemma boxed_pass:
  assumes box: "strict_eq (V ''cubeMapProjection'') (CUBEPROJ_BOX C)"
    and bx: "V ''cubeMapProjectionBox'' = JBox b"
  shows "hoare3
           (tracks V (\<lambda>L T. PName ''envBoxMin'' \<notin> set L \<and> PName ''envBoxMax'' \<notin> set L))
           (updateUniforms_params C sc)
           (tracks V (\<lambda>L T. PName ''envBoxMin'' \<notin> set L \<and> PName ''envBoxMax'' \<notin> set L \<and>
                           PEntries ''cubeMapProjectionBox'' \<in> set L \<and>
                           T ''envBoxMin'' = Some (JEntry ''cubeMapProjectionBox'' 0) \<and>
                           T ''envBoxMax'' = Some (JEntry ''cubeMapProjectionBox'' 1)))
           (\<lambda>s. False)"
  unfolding updateUniforms_params_def
  apply (rule hoare3_seq_at[where n = 14
        and R = "tracks V (\<lambda>L T. PName ''envBoxMin'' \<notin> set L \<and> PName ''envBoxMax'' \<notin> set L)"
        and R' = "tracks V (\<lambda>L T. PName ''envBoxMin'' \<notin> set L \<and> PName ''envBoxMax'' \<notin> set L \<and>
                           PEntries ''cubeMapProjectionBox'' \<in> set L \<and>
                           T ''envBoxMin'' = Some (JEntry ''cubeMapProjectionBox'' 0) \<and>
                           T ''envBoxMax'' = Some (JEntry ''cubeMapProjectionBox'' 1))"])
  subgoal by simp
  subgoal
    apply simp
    apply (rule hoare3_passes)
    apply (intro passes_seq_Nil passes_seq_Cons passes_if_then passes_if_else
        passes_set_value[OF grows_unnamed] passes_set_uniform[OF grows_unnamed])
    apply (simp_all add: color_props_def)
    done
  subgoal
    apply simp
    apply (auto simp: hoare3_def if_then_def set_box_uniform_def getUniform_box
        uniform_cubeMapProjectionBox_def p_allocUniform_def tracks_def box bx Let_def
        p_setParameter_def setParameter_def entry_name_def set_add_def set_has_def
        split: option.splits)
    done
  subgoal
    apply simp
    apply (rule hoare3_passes)
    apply (intro passes_seq_Nil passes_seq_Cons passes_seq_map passes_if_then passes_if_else
        passes_set_value[OF grows_box] passes_set_uniform[OF grows_box]
        passes_p_updateMap[OF grows_box])
    apply (simp_all add: color_props_def)
    done
  done

lemma key_of_unnamed:
  "PName a \<notin> set L \<Longrightarrow> a \<noteq> ''[object Object],[object Object]'' \<Longrightarrow> \<forall>p\<in>set L. key_of p \<noteq> a"
  by (auto simp: key_of_def split: pkey.splits)

lemma parameters_updateUniforms_end:
  "parameters (updateUniforms_end s) k =
     (if \<exists>p \<in> set (sets s (activeParams s)). \<not> set_has (sets s (params s)) p \<and> key_of p = k
      then None else parameters s k)"
proof -
  have "parameters (updateUniforms_end s) = parameters (p_processParameters ActiveParams s)"
    by (simp add: updateUniforms_end_def Let_def clearVariants_def)
  then show ?thesis
    by (simp only: parameters_p_processParameters get_field_def params_field.case)
qed

section \<open>Two updates after an update that threw\<close>

lemma vals_assign: "name \<noteq> ''chunks'' \<Longrightarrow> vals (assign name v s) = (vals s)(name := v)"
  by (auto simp: assign_def defineValueProp_setter_def Let_def strict_eq_def)

lemma parameters_assign: "parameters (assign name v s) = parameters s"
  by (simp add: assign_def defineValueProp_setter_def set_chunks_def Let_def)

lemma new_material_fields:
  "params (new_StandardMaterial D) = 0"
  "activeParams (new_StandardMaterial D) = 1"
  "sets (new_StandardMaterial D) = (\<lambda>a. set_clear)"
  "parameters (new_StandardMaterial D) = Map.empty"
  by (simp_all add: new_StandardMaterial_def)

lemma new_material_box:
  "vals (new_StandardMaterial engine_defaults) ''cubeMapProjectionBox'' = JNull"
  by code_simp

text \<open>A returning update, followed through its statements.\<close>

lemma updateUniforms_follow:
  assumes h: "hoare3 (tracks V P) (updateUniforms_params C sc) (tracks V Q) (\<lambda>s. False)"
    and t: "tracks V P s"
  shows "\<exists>b. updateUniforms C sc s = Inr (updateUniforms_end b) \<and> tracks V Q b \<and> frame s b"
proof -
  obtain b where b: "updateUniforms_params C sc s = Inr b" and q: "tracks V Q b"
    using hoare3D[OF h t] by (cases "updateUniforms_params C sc s") auto
  have "frame s b"
    using framedD[OF framed_updateUniforms_params, of s C sc] b by (simp add: state_after_def)
  then show ?thesis
    using b q by (auto simp: updateUniforms_split)
qed

lemma failing_material_fields:
  "vals failing_material ''clearCoat'' = JNum (1 / 2)"
  "vals failing_material ''cubeMapProjection'' = CUBEPROJ_BOX engine_constants"
  "vals failing_material ''cubeMapProjectionBox'' = JNull"
  "params failing_material = 0" "activeParams failing_material = 1"
  "sets failing_material = (\<lambda>a. set_clear)"
  by (simp_all add: failing_material_def vals_assign assign_sets new_material_fields
      new_material_box)

lemma after_failed_update_fields:
  "isl (updateUniforms engine_constants example_scene failing_material)"
  "vals after_failed_update = vals failing_material"
  "params after_failed_update = 0" "activeParams after_failed_update = 1"
  "sets after_failed_update 1 = set_clear"
  "PName ''material_clearCoat'' \<in> set (sets after_failed_update 0)"
  "parameters after_failed_update ''material_clearCoat'' = Some (JNum (1 / 2))"
proof -
  let ?r = "updateUniforms_params engine_constants example_scene failing_material"
  let ?Q = "\<lambda>L T. PName ''material_clearCoat'' \<in> set L \<and>
                  T ''material_clearCoat'' = Some (JNum (1 / 2))"
  have t: "tracks (vals failing_material) (\<lambda>L T. True) failing_material"
    by (simp add: tracks_def)
  have h: "case ?r of Inl (e, s') \<Rightarrow> tracks (vals failing_material) ?Q s'
           | Inr s' \<Rightarrow> False"
    by (rule hoare3D[OF failed_pass t])
       (simp_all add: failing_material_fields strict_eq_def engine_constants_def)
  then obtain e s' where r: "?r = Inl (e, s')"
    and m: "tracks (vals failing_material) ?Q s'"
    by (cases ?r) auto
  have a: "after_failed_update = s'"
    using r by (simp add: after_failed_update_def updateUniforms_split state_after_def)
  have f: "frame failing_material s'"
    using framedD[OF framed_updateUniforms_params, of failing_material engine_constants
        example_scene] r
    by (simp add: state_after_def)
  show "isl (updateUniforms engine_constants example_scene failing_material)"
    using r by (simp add: updateUniforms_split)
  show "vals after_failed_update = vals failing_material"
    using m by (simp add: a tracks_def)
  show "params after_failed_update = 0" "activeParams after_failed_update = 1"
    using f by (simp_all add: a frame_def failing_material_fields)
  show "sets after_failed_update 1 = set_clear"
    using f by (simp add: a frame_def failing_material_fields)
  show "PName ''material_clearCoat'' \<in> set (sets after_failed_update 0)"
    using m f by (simp add: a tracks_def frame_def failing_material_fields)
  show "parameters after_failed_update ''material_clearCoat'' = Some (JNum (1 / 2))"
    using m by (simp add: a tracks_def)
qed

lemma repaired_material_fields:
  "vals repaired_material ''clearCoat'' = JNum 0"
  "vals repaired_material ''cubeMapProjection'' = CUBEPROJ_NONE engine_defaults"
  "params repaired_material = 0" "activeParams repaired_material = 1"
  "sets repaired_material 1 = set_clear"
  "PName ''material_clearCoat'' \<in> set (sets repaired_material 0)"
  "parameters repaired_material ''material_clearCoat'' = Some (JNum (1 / 2))"
  using after_failed_update_fields
  by (simp_all add: repaired_material_def vals_assign assign_sets parameters_assign)

lemma not_box: "\<not> strict_eq (CUBEPROJ_NONE engine_defaults) (CUBEPROJ_BOX engine_constants)"
  by (simp add: strict_eq_def engine_defaults_def engine_constants_def)

lemma first_update_fields:
  "\<not> isl (updateUniforms engine_constants example_scene repaired_material)"
  "vals first_update = vals repaired_material"
  "params first_update = 1" "activeParams first_update = 0"
  "sets first_update 1 = set_clear"
  "PName ''material_clearCoat'' \<in> set (sets first_update 0)"
  "parameters first_update ''material_clearCoat'' = Some (JNum (1 / 2))"
proof -
  let ?V = "vals repaired_material"
  let ?Q = "\<lambda>L T. PName ''material_clearCoat'' \<in> set L \<and>
                  T ''material_clearCoat'' = Some (JNum (1 / 2))"
  have p: "passes (tracks ?V ?Q) (\<lambda>s. True)
             (updateUniforms_params engine_constants example_scene)"
    by (rule passes_without_box[OF grows_member_bound])
       (simp_all add: repaired_material_fields not_box js_gt_def js_lt_def)
  have t: "tracks ?V ?Q repaired_material"
    by (simp add: tracks_def repaired_material_fields)
  obtain b where r: "updateUniforms engine_constants example_scene repaired_material
                       = Inr (updateUniforms_end b)"
    and m: "tracks ?V ?Q b"
    and f: "frame repaired_material b"
    using updateUniforms_follow[OF hoare3_passes[OF p] t] by blast
  have a: "first_update = updateUniforms_end b"
    using r by (simp add: first_update_def state_after_def)
  have e: "sets repaired_material (Suc 0) = []"
    using repaired_material_fields(5) by (simp add: set_clear_def)
  have pb: "params b = 0" "activeParams b = 1" "sets b 1 = []" "sets b (Suc 0) = []"
    using f e by (simp_all add: frame_def repaired_material_fields(3,4))
  show "\<not> isl (updateUniforms engine_constants example_scene repaired_material)"
    using r by simp
  show "vals first_update = vals repaired_material"
    using m by (simp add: a updateUniforms_end_fields tracks_def)
  show "params first_update = 1" "activeParams first_update = 0"
    by (simp_all add: a updateUniforms_end_fields pb)
  show "sets first_update 1 = set_clear"
    by (simp add: a updateUniforms_end_fields pb)
  show "PName ''material_clearCoat'' \<in> set (sets first_update 0)"
    using m by (simp add: a updateUniforms_end_fields pb tracks_def)
  show "parameters first_update ''material_clearCoat'' = Some (JNum (1 / 2))"
    using m by (simp add: a parameters_updateUniforms_end pb tracks_def)
qed

lemma grows_absent: "grows (\<lambda>n. n \<noteq> a) (\<lambda>L T. PName a \<notin> set L)"
  by (auto simp: grows_def set_add_def set_has_def)

lemma second_update_fields:
  "\<not> isl (updateUniforms engine_constants example_scene first_update)"
  "activeParams second_update = 1"
  "PName ''material_clearCoat'' \<notin> set (sets second_update 1)"
  "parameters second_update ''material_clearCoat'' = None"
proof -
  let ?V = "vals first_update"
  have p: "passes (tracks ?V (\<lambda>L T. PName ''material_clearCoat'' \<notin> set L)) (\<lambda>s. True)
             (updateUniforms_params engine_constants example_scene)"
    by (rule passes_without_box[OF grows_absent])
       (simp_all add: first_update_fields repaired_material_fields not_box js_gt_def js_lt_def)
  have e: "sets first_update (Suc 0) = []"
    using first_update_fields(5) by (simp add: set_clear_def)
  have t: "tracks ?V (\<lambda>L T. PName ''material_clearCoat'' \<notin> set L) first_update"
    by (simp add: tracks_def first_update_fields(3) e)
  obtain b where r: "updateUniforms engine_constants example_scene first_update
                       = Inr (updateUniforms_end b)"
    and m: "tracks ?V (\<lambda>L T. PName ''material_clearCoat'' \<notin> set L) b"
    and f: "frame first_update b"
    using updateUniforms_follow[OF hoare3_passes[OF p] t] by blast
  have a: "second_update = updateUniforms_end b"
    using r by (simp add: second_update_def state_after_def)
  have pb: "params b = 1" "activeParams b = 0" "sets b 0 = sets first_update 0"
    using f by (simp_all add: frame_def first_update_fields)
  show "\<not> isl (updateUniforms engine_constants example_scene first_update)"
    using r by simp
  show "activeParams second_update = 1"
    by (simp add: a updateUniforms_end_fields pb)
  show "PName ''material_clearCoat'' \<notin> set (sets second_update 1)"
    using m by (simp add: a updateUniforms_end_fields pb tracks_def)
  have "\<exists>p\<in>set (sets b 0). \<not> set_has (sets b 1) p \<and> key_of p = ''material_clearCoat''"
    using m first_update_fields(6)
    by (intro bexI[where x = "PName ''material_clearCoat''"])
       (simp_all add: pb tracks_def set_has_def key_of_def)
  then show "parameters second_update ''material_clearCoat'' = None"
    by (simp add: a parameters_updateUniforms_end pb)
qed

text \<open>
  The parameter \<^verbatim>\<open>material_clearCoat\<close>, bound by the update that threw, is still bound
  after the first update of the repaired material, which does not register it, and is
  removed by the second.
\<close>

lemma stale_parameter_after_failure:
  "parameters first_update ''material_clearCoat'' = Some (JNum (1 / 2))
   \<and> parameters second_update ''material_clearCoat'' = None"
  using first_update_fields(7) second_update_fields(4) by simp


section \<open>The parameters of the projection box\<close>

lemma boxed_material_fields:
  "vals boxed_material ''cubeMapProjection'' = CUBEPROJ_BOX engine_constants"
  "vals boxed_material ''cubeMapProjectionBox'' = JBox example_box"
  "params boxed_material = 0" "activeParams boxed_material = 1"
  "sets boxed_material = (\<lambda>a. set_clear)"
  "parameters boxed_material = Map.empty"
  by (simp_all add: boxed_material_def vals_assign assign_sets parameters_assign
      new_material_fields)

lemma boxed_update_fields:
  "\<not> isl (updateUniforms engine_constants example_scene boxed_material)"
  "vals boxed_update = vals boxed_material"
  "params boxed_update = 1" "activeParams boxed_update = 0"
  "sets boxed_update 1 = set_clear"
  "PName ''envBoxMin'' \<notin> set (sets boxed_update 0)"
  "PName ''envBoxMax'' \<notin> set (sets boxed_update 0)"
  "PEntries ''cubeMapProjectionBox'' \<in> set (sets boxed_update 0)"
  "parameters boxed_update ''envBoxMin'' = Some (JEntry ''cubeMapProjectionBox'' 0)"
  "parameters boxed_update ''envBoxMax'' = Some (JEntry ''cubeMapProjectionBox'' 1)"
proof -
  let ?V = "vals boxed_material"
  let ?P = "\<lambda>L T. PName ''envBoxMin'' \<notin> set L \<and> PName ''envBoxMax'' \<notin> set L"
  let ?Q = "\<lambda>L T. PName ''envBoxMin'' \<notin> set L \<and> PName ''envBoxMax'' \<notin> set L \<and>
                  PEntries ''cubeMapProjectionBox'' \<in> set L \<and>
                  T ''envBoxMin'' = Some (JEntry ''cubeMapProjectionBox'' 0) \<and>
                  T ''envBoxMax'' = Some (JEntry ''cubeMapProjectionBox'' 1)"
  have h: "hoare3 (tracks ?V ?P) (updateUniforms_params engine_constants example_scene)
             (tracks ?V ?Q) (\<lambda>s. False)"
    by (rule boxed_pass[where b = example_box])
       (simp_all add: boxed_material_fields strict_eq_def engine_constants_def)
  have t: "tracks ?V ?P boxed_material"
    by (simp add: tracks_def boxed_material_fields set_clear_def)
  obtain b where r: "updateUniforms engine_constants example_scene boxed_material
                       = Inr (updateUniforms_end b)"
    and m: "tracks ?V ?Q b" and f: "frame boxed_material b"
    using updateUniforms_follow[OF h t] by blast
  have a: "boxed_update = updateUniforms_end b"
    using r by (simp add: boxed_update_def state_after_def)
  have pb: "params b = 0" "activeParams b = 1" "sets b 1 = []" "sets b (Suc 0) = []"
    using f by (simp_all add: frame_def boxed_material_fields set_clear_def)
  show "\<not> isl (updateUniforms engine_constants example_scene boxed_material)"
    using r by simp
  show "vals boxed_update = vals boxed_material"
    using m by (simp add: a updateUniforms_end_fields tracks_def)
  show "params boxed_update = 1" "activeParams boxed_update = 0"
    by (simp_all add: a updateUniforms_end_fields pb)
  show "sets boxed_update 1 = set_clear"
    by (simp add: a updateUniforms_end_fields pb)
  show "PName ''envBoxMin'' \<notin> set (sets boxed_update 0)"
    "PName ''envBoxMax'' \<notin> set (sets boxed_update 0)"
    "PEntries ''cubeMapProjectionBox'' \<in> set (sets boxed_update 0)"
    using m by (simp_all add: a updateUniforms_end_fields pb tracks_def)
  show "parameters boxed_update ''envBoxMin'' = Some (JEntry ''cubeMapProjectionBox'' 0)"
    "parameters boxed_update ''envBoxMax'' = Some (JEntry ''cubeMapProjectionBox'' 1)"
    using m by (simp_all add: a parameters_updateUniforms_end pb tracks_def)
qed

lemma unboxed_material_fields:
  "vals unboxed_material ''cubeMapProjection'' = CUBEPROJ_NONE engine_defaults"
  "params unboxed_material = 1" "activeParams unboxed_material = 0"
  "sets unboxed_material 1 = set_clear"
  "PName ''envBoxMin'' \<notin> set (sets unboxed_material 0)"
  "PName ''envBoxMax'' \<notin> set (sets unboxed_material 0)"
  "parameters unboxed_material ''envBoxMin'' = Some (JEntry ''cubeMapProjectionBox'' 0)"
  "parameters unboxed_material ''envBoxMax'' = Some (JEntry ''cubeMapProjectionBox'' 1)"
  using boxed_update_fields(1-7,9,10)
  by (simp_all add: unboxed_material_def vals_assign assign_sets parameters_assign)

lemma unboxed_update_fields:
  "\<not> isl (updateUniforms engine_constants example_scene unboxed_material)"
  "activeParams unboxed_update = 1"
  "PName ''envBoxMin'' \<notin> set (sets unboxed_update 1)"
  "PName ''envBoxMax'' \<notin> set (sets unboxed_update 1)"
  "parameters unboxed_update ''envBoxMin'' = Some (JEntry ''cubeMapProjectionBox'' 0)"
  "parameters unboxed_update ''envBoxMax'' = Some (JEntry ''cubeMapProjectionBox'' 1)"
proof -
  let ?V = "vals unboxed_material"
  let ?Q = "\<lambda>L T. PName ''envBoxMin'' \<notin> set L \<and> PName ''envBoxMax'' \<notin> set L \<and>
                  T ''envBoxMin'' = Some (JEntry ''cubeMapProjectionBox'' 0) \<and>
                  T ''envBoxMax'' = Some (JEntry ''cubeMapProjectionBox'' 1)"
  have p: "passes (tracks ?V ?Q) (\<lambda>s. True) (updateUniforms_params engine_constants example_scene)"
    by (rule passes_without_box[OF grows_bound])
       (simp_all add: unboxed_material_fields not_box)
  have e: "sets unboxed_material (Suc 0) = []"
    using unboxed_material_fields(4) by (simp add: set_clear_def)
  have t: "tracks ?V ?Q unboxed_material"
    by (simp add: tracks_def unboxed_material_fields(2,7,8) e)
  obtain b where r: "updateUniforms engine_constants example_scene unboxed_material
                       = Inr (updateUniforms_end b)"
    and m: "tracks ?V ?Q b" and f: "frame unboxed_material b"
    using updateUniforms_follow[OF hoare3_passes[OF p] t] by blast
  have a: "unboxed_update = updateUniforms_end b"
    using r by (simp add: unboxed_update_def state_after_def)
  have pb: "params b = 1" "activeParams b = 0" "sets b 0 = sets unboxed_material 0"
    using f by (simp_all add: frame_def unboxed_material_fields)
  have k: "\<forall>p\<in>set (sets b 0). key_of p \<noteq> ''envBoxMin''"
    "\<forall>p\<in>set (sets b 0). key_of p \<noteq> ''envBoxMax''"
    using unboxed_material_fields(5,6) by (simp_all add: pb key_of_unnamed)
  show "\<not> isl (updateUniforms engine_constants example_scene unboxed_material)"
    using r by simp
  show "activeParams unboxed_update = 1"
    by (simp add: a updateUniforms_end_fields pb)
  show "PName ''envBoxMin'' \<notin> set (sets unboxed_update 1)"
    "PName ''envBoxMax'' \<notin> set (sets unboxed_update 1)"
    using m by (simp_all add: a updateUniforms_end_fields pb tracks_def)
  show "parameters unboxed_update ''envBoxMin'' = Some (JEntry ''cubeMapProjectionBox'' 0)"
    "parameters unboxed_update ''envBoxMax'' = Some (JEntry ''cubeMapProjectionBox'' 1)"
    using m k by (auto simp: a parameters_updateUniforms_end pb tracks_def)
qed

text \<open>
  C6. The parameters of the projection box are not removed. The update of
  \<open>boxed_material\<close> binds \<^verbatim>\<open>envBoxMin\<close> and \<^verbatim>\<open>envBoxMax\<close>, which were not bound before;
  \<^verbatim>\<open>_setParameter\<close> is handed the array of the two entries, so the active-parameter set
  holds the array and neither name. With the projection switched off the next update
  returns and registers neither of them, and after its \<^verbatim>\<open>_processParameters\<close> step both
  are still in \<^verbatim>\<open>this.parameters\<close>.
\<close>

theorem envBox_parameters_stay_bound:
  "parameters boxed_material ''envBoxMin'' = None
   \<and> parameters boxed_material ''envBoxMax'' = None
   \<and> \<not> isl (updateUniforms engine_constants example_scene boxed_material)
   \<and> parameters boxed_update ''envBoxMin'' = Some (JEntry ''cubeMapProjectionBox'' 0)
   \<and> parameters boxed_update ''envBoxMax'' = Some (JEntry ''cubeMapProjectionBox'' 1)
   \<and> \<not> set_has (sets boxed_update (activeParams boxed_update)) (PName ''envBoxMin'')
   \<and> \<not> set_has (sets boxed_update (activeParams boxed_update)) (PName ''envBoxMax'')
   \<and> set_has (sets boxed_update (activeParams boxed_update)) (PEntries ''cubeMapProjectionBox'')
   \<and> vals unboxed_material ''cubeMapProjection'' = CUBEPROJ_NONE engine_defaults
   \<and> \<not> isl (updateUniforms engine_constants example_scene unboxed_material)
   \<and> \<not> set_has (sets unboxed_update (activeParams unboxed_update)) (PName ''envBoxMin'')
   \<and> \<not> set_has (sets unboxed_update (activeParams unboxed_update)) (PName ''envBoxMax'')
   \<and> parameters unboxed_update ''envBoxMin'' = Some (JEntry ''cubeMapProjectionBox'' 0)
   \<and> parameters unboxed_update ''envBoxMax'' = Some (JEntry ''cubeMapProjectionBox'' 1)"
  using boxed_update_fields unboxed_update_fields unboxed_material_fields(1)
  by (simp add: set_has_def boxed_material_fields)

section \<open>The colour uniforms\<close>










end
